theory Spec2Isabelle
  imports Complex_Main
begin

section \<open>The options tree and its merge (ACF.h)\<close>

text \<open>
  \<^verbatim>\<open>Detector::Options\<close> is a tree of structs whose members are all of type
  \<^verbatim>\<open>Field<T>\<close>. The structs are those of ACF.h, member by member; \<^verbatim>\<open>int\<close> is an
  integer, \<^verbatim>\<open>double\<close> a real number, \<^verbatim>\<open>cv::Size\<close> a pair of integers. The merge only
  copies values, it never computes with them.
\<close>

type_synonym Size = "int \<times> int"

text \<open>
  Modelled from the spec: \<^verbatim>\<open>Field<T>\<close> (declared in \<^verbatim>\<open>acf/ACFField.h\<close>, which is not among
  the sources). "Every option field independently tracks has explicit value vs uses
  default": a field is a flag and a value. The name a field carries
  (\<^verbatim>\<open>shrink.set("shrink")\<close>) is the same in every tree and is left out.
\<close>

record 'a Field =
  has :: bool
  val :: 'a

text \<open>
  Modelled from the spec: the merge of a field that holds a value (the body of
  \<^verbatim>\<open>Field<T>::merge\<close> is not among the sources). "Every field explicitly set in override
  replaces the corresponding field in base", and "unset fields inherit from base".
\<close>

definition Field_merge :: "'a Field \<Rightarrow> 'a Field \<Rightarrow> 'a Field" where
  "Field_merge b ov = (if has ov then ov else b)"

text \<open>
  Modelled from the spec: the merge of a field that holds a nested struct (same missing
  body). The replacement goes "recursively through nested groups": where the override
  sets the field, the structs are merged member by member by \<open>m\<close> and the result is
  explicitly set; where it does not, the field inherits from the base as a whole.
\<close>

definition Group_merge :: "('a \<Rightarrow> 'a \<Rightarrow> 'a) \<Rightarrow> 'a Field \<Rightarrow> 'a Field \<Rightarrow> 'a Field" where
  "Group_merge m b ov = (if has ov then \<lparr>has = True, val = m (val b) (val ov)\<rparr> else b)"

text \<open>
  The members \<^verbatim>\<open>void merge(const T &src, int mode)\<close> of the structs are declared in ACF.h
  and defined elsewhere. Below, the receiver is the base and \<^verbatim>\<open>src\<close> the override. The
  \<^verbatim>\<open>mode\<close> selects whether an override may introduce unknown fields; the fields of a
  struct are fixed by its type, so no override introduces one and the mode does not change
  the result.
\<close>

text \<open>
  A field that has not been set, holding some default value; \<open>T_new\<close> below is the
  struct \<open>T\<close> in which no field is set, at any depth.
\<close>

definition Field_new :: "'a \<Rightarrow> 'a Field" where
  "Field_new d = \<lparr>has = False, val = d\<rparr>"

text \<open>\<^verbatim>\<open>Options::Pyramid::Chns::Custom\<close> has no members.\<close>

datatype Custom = Custom

text \<open>
  Modelled from the spec: the body of \<^verbatim>\<open>Options::Pyramid::Chns::Custom::merge\<close>
  (declared at ACF.h:140). There is no field to replace.
\<close>

definition Custom_merge :: "Custom \<Rightarrow> Custom \<Rightarrow> int \<Rightarrow> Custom" where
  "Custom_merge b ov mode = b"

definition Custom_unset :: "Custom \<Rightarrow> bool" where
  "Custom_unset x = True"

definition Custom_new :: Custom where
  "Custom_new = Custom"

text \<open>\<^verbatim>\<open>Options::Nms\<close>\<close>

record Nms =
  Nms_type :: "string Field"
  Nms_thr :: "real Field"
  Nms_maxn :: "real Field"
  Nms_radii :: "real list Field"
  Nms_overlap :: "real Field"
  Nms_ovrDnm :: "string Field"
  Nms_separate :: "int Field"

text \<open>
  Modelled from the spec: the body of \<^verbatim>\<open>Options::Nms::merge\<close>
  (declared at ACF.h:79), field by field.
\<close>

definition Nms_merge :: "Nms \<Rightarrow> Nms \<Rightarrow> int \<Rightarrow> Nms" where
  "Nms_merge b ov mode =
     \<lparr>Nms_type = Field_merge (Nms_type b) (Nms_type ov),
      Nms_thr = Field_merge (Nms_thr b) (Nms_thr ov),
      Nms_maxn = Field_merge (Nms_maxn b) (Nms_maxn ov),
      Nms_radii = Field_merge (Nms_radii b) (Nms_radii ov),
      Nms_overlap = Field_merge (Nms_overlap b) (Nms_overlap ov),
      Nms_ovrDnm = Field_merge (Nms_ovrDnm b) (Nms_ovrDnm ov),
      Nms_separate = Field_merge (Nms_separate b) (Nms_separate ov)\<rparr>"

text \<open>No field is set, at any depth; and such a struct.\<close>

definition Nms_unset :: "Nms \<Rightarrow> bool" where
  "Nms_unset x \<longleftrightarrow>
     \<not> has (Nms_type x)
     \<and> \<not> has (Nms_thr x)
     \<and> \<not> has (Nms_maxn x)
     \<and> \<not> has (Nms_radii x)
     \<and> \<not> has (Nms_overlap x)
     \<and> \<not> has (Nms_ovrDnm x)
     \<and> \<not> has (Nms_separate x)"

definition Nms_new :: Nms where
  "Nms_new =
     \<lparr>Nms_type = Field_new [],
      Nms_thr = Field_new 0,
      Nms_maxn = Field_new 0,
      Nms_radii = Field_new [],
      Nms_overlap = Field_new 0,
      Nms_ovrDnm = Field_new [],
      Nms_separate = Field_new 0\<rparr>"

text \<open>\<^verbatim>\<open>Options::Pyramid::Chns::Color\<close>\<close>

record Color =
  Color_enabled :: "int Field"
  Color_smooth :: "real Field"
  Color_colorSpace :: "string Field"

text \<open>
  Modelled from the spec: the body of \<^verbatim>\<open>Options::Pyramid::Chns::Color::merge\<close>
  (declared at ACF.h:105), field by field.
\<close>

definition Color_merge :: "Color \<Rightarrow> Color \<Rightarrow> int \<Rightarrow> Color" where
  "Color_merge b ov mode =
     \<lparr>Color_enabled = Field_merge (Color_enabled b) (Color_enabled ov),
      Color_smooth = Field_merge (Color_smooth b) (Color_smooth ov),
      Color_colorSpace = Field_merge (Color_colorSpace b) (Color_colorSpace ov)\<rparr>"

text \<open>No field is set, at any depth; and such a struct.\<close>

definition Color_unset :: "Color \<Rightarrow> bool" where
  "Color_unset x \<longleftrightarrow>
     \<not> has (Color_enabled x)
     \<and> \<not> has (Color_smooth x)
     \<and> \<not> has (Color_colorSpace x)"

definition Color_new :: Color where
  "Color_new =
     \<lparr>Color_enabled = Field_new 0,
      Color_smooth = Field_new 0,
      Color_colorSpace = Field_new []\<rparr>"

text \<open>\<^verbatim>\<open>Options::Pyramid::Chns::GradMag\<close>\<close>

record GradMag =
  GradMag_enabled :: "int Field"
  GradMag_colorChn :: "int Field"
  GradMag_normRad :: "int Field"
  GradMag_normConst :: "real Field"
  GradMag_full :: "int Field"

text \<open>
  Modelled from the spec: the body of \<^verbatim>\<open>Options::Pyramid::Chns::GradMag::merge\<close>
  (declared at ACF.h:118), field by field.
\<close>

definition GradMag_merge :: "GradMag \<Rightarrow> GradMag \<Rightarrow> int \<Rightarrow> GradMag" where
  "GradMag_merge b ov mode =
     \<lparr>GradMag_enabled = Field_merge (GradMag_enabled b) (GradMag_enabled ov),
      GradMag_colorChn = Field_merge (GradMag_colorChn b) (GradMag_colorChn ov),
      GradMag_normRad = Field_merge (GradMag_normRad b) (GradMag_normRad ov),
      GradMag_normConst = Field_merge (GradMag_normConst b) (GradMag_normConst ov),
      GradMag_full = Field_merge (GradMag_full b) (GradMag_full ov)\<rparr>"

text \<open>No field is set, at any depth; and such a struct.\<close>

definition GradMag_unset :: "GradMag \<Rightarrow> bool" where
  "GradMag_unset x \<longleftrightarrow>
     \<not> has (GradMag_enabled x)
     \<and> \<not> has (GradMag_colorChn x)
     \<and> \<not> has (GradMag_normRad x)
     \<and> \<not> has (GradMag_normConst x)
     \<and> \<not> has (GradMag_full x)"

definition GradMag_new :: GradMag where
  "GradMag_new =
     \<lparr>GradMag_enabled = Field_new 0,
      GradMag_colorChn = Field_new 0,
      GradMag_normRad = Field_new 0,
      GradMag_normConst = Field_new 0,
      GradMag_full = Field_new 0\<rparr>"

text \<open>\<^verbatim>\<open>Options::Pyramid::Chns::GradHist\<close>\<close>

record GradHist =
  GradHist_enabled :: "int Field"
  GradHist_binSize :: "int Field"
  GradHist_nOrients :: "int Field"
  GradHist_softBin :: "int Field"
  GradHist_useHog :: "int Field"
  GradHist_clipHog :: "real Field"

text \<open>
  Modelled from the spec: the body of \<^verbatim>\<open>Options::Pyramid::Chns::GradHist::merge\<close>
  (declared at ACF.h:132), field by field.
\<close>

definition GradHist_merge :: "GradHist \<Rightarrow> GradHist \<Rightarrow> int \<Rightarrow> GradHist" where
  "GradHist_merge b ov mode =
     \<lparr>GradHist_enabled = Field_merge (GradHist_enabled b) (GradHist_enabled ov),
      GradHist_binSize = Field_merge (GradHist_binSize b) (GradHist_binSize ov),
      GradHist_nOrients = Field_merge (GradHist_nOrients b) (GradHist_nOrients ov),
      GradHist_softBin = Field_merge (GradHist_softBin b) (GradHist_softBin ov),
      GradHist_useHog = Field_merge (GradHist_useHog b) (GradHist_useHog ov),
      GradHist_clipHog = Field_merge (GradHist_clipHog b) (GradHist_clipHog ov)\<rparr>"

text \<open>No field is set, at any depth; and such a struct.\<close>

definition GradHist_unset :: "GradHist \<Rightarrow> bool" where
  "GradHist_unset x \<longleftrightarrow>
     \<not> has (GradHist_enabled x)
     \<and> \<not> has (GradHist_binSize x)
     \<and> \<not> has (GradHist_nOrients x)
     \<and> \<not> has (GradHist_softBin x)
     \<and> \<not> has (GradHist_useHog x)
     \<and> \<not> has (GradHist_clipHog x)"

definition GradHist_new :: GradHist where
  "GradHist_new =
     \<lparr>GradHist_enabled = Field_new 0,
      GradHist_binSize = Field_new 0,
      GradHist_nOrients = Field_new 0,
      GradHist_softBin = Field_new 0,
      GradHist_useHog = Field_new 0,
      GradHist_clipHog = Field_new 0\<rparr>"

text \<open>\<^verbatim>\<open>Options::Pyramid::Chns\<close>\<close>

record Chns =
  Chns_shrink :: "int Field"
  Chns_pColor :: "Color Field"
  Chns_pGradMag :: "GradMag Field"
  Chns_pGradHist :: "GradHist Field"
  Chns_pCustom :: "Custom Field"
  Chns_complete :: "int Field"

text \<open>
  Modelled from the spec: the body of \<^verbatim>\<open>Options::Pyramid::Chns::merge\<close>
  (declared at ACF.h:146), field by field.
\<close>

definition Chns_merge :: "Chns \<Rightarrow> Chns \<Rightarrow> int \<Rightarrow> Chns" where
  "Chns_merge b ov mode =
     \<lparr>Chns_shrink = Field_merge (Chns_shrink b) (Chns_shrink ov),
      Chns_pColor = Group_merge (\<lambda>x y. Color_merge x y mode) (Chns_pColor b) (Chns_pColor ov),
      Chns_pGradMag = Group_merge (\<lambda>x y. GradMag_merge x y mode) (Chns_pGradMag b) (Chns_pGradMag ov),
      Chns_pGradHist = Group_merge (\<lambda>x y. GradHist_merge x y mode) (Chns_pGradHist b) (Chns_pGradHist ov),
      Chns_pCustom = Group_merge (\<lambda>x y. Custom_merge x y mode) (Chns_pCustom b) (Chns_pCustom ov),
      Chns_complete = Field_merge (Chns_complete b) (Chns_complete ov)\<rparr>"

text \<open>No field is set, at any depth; and such a struct.\<close>

definition Chns_unset :: "Chns \<Rightarrow> bool" where
  "Chns_unset x \<longleftrightarrow>
     \<not> has (Chns_shrink x)
     \<and> \<not> has (Chns_pColor x) \<and> Color_unset (val (Chns_pColor x))
     \<and> \<not> has (Chns_pGradMag x) \<and> GradMag_unset (val (Chns_pGradMag x))
     \<and> \<not> has (Chns_pGradHist x) \<and> GradHist_unset (val (Chns_pGradHist x))
     \<and> \<not> has (Chns_pCustom x) \<and> Custom_unset (val (Chns_pCustom x))
     \<and> \<not> has (Chns_complete x)"

definition Chns_new :: Chns where
  "Chns_new =
     \<lparr>Chns_shrink = Field_new 0,
      Chns_pColor = Field_new Color_new,
      Chns_pGradMag = Field_new GradMag_new,
      Chns_pGradHist = Field_new GradHist_new,
      Chns_pCustom = Field_new Custom_new,
      Chns_complete = Field_new 0\<rparr>"

text \<open>\<^verbatim>\<open>Options::Pyramid\<close>\<close>

record Pyramid =
  Pyramid_pChns :: "Chns Field"
  Pyramid_nPerOct :: "int Field"
  Pyramid_nOctUp :: "int Field"
  Pyramid_nApprox :: "int Field"
  Pyramid_lambdas :: "real list Field"
  Pyramid_pad :: "Size Field"
  Pyramid_minDs :: "Size Field"
  Pyramid_smooth :: "real Field"
  Pyramid_concat :: "int Field"
  Pyramid_complete :: "int Field"

text \<open>
  Modelled from the spec: the body of \<^verbatim>\<open>Options::Pyramid::merge\<close>
  (declared at ACF.h:163), field by field.
\<close>

definition Pyramid_merge :: "Pyramid \<Rightarrow> Pyramid \<Rightarrow> int \<Rightarrow> Pyramid" where
  "Pyramid_merge b ov mode =
     \<lparr>Pyramid_pChns = Group_merge (\<lambda>x y. Chns_merge x y mode) (Pyramid_pChns b) (Pyramid_pChns ov),
      Pyramid_nPerOct = Field_merge (Pyramid_nPerOct b) (Pyramid_nPerOct ov),
      Pyramid_nOctUp = Field_merge (Pyramid_nOctUp b) (Pyramid_nOctUp ov),
      Pyramid_nApprox = Field_merge (Pyramid_nApprox b) (Pyramid_nApprox ov),
      Pyramid_lambdas = Field_merge (Pyramid_lambdas b) (Pyramid_lambdas ov),
      Pyramid_pad = Field_merge (Pyramid_pad b) (Pyramid_pad ov),
      Pyramid_minDs = Field_merge (Pyramid_minDs b) (Pyramid_minDs ov),
      Pyramid_smooth = Field_merge (Pyramid_smooth b) (Pyramid_smooth ov),
      Pyramid_concat = Field_merge (Pyramid_concat b) (Pyramid_concat ov),
      Pyramid_complete = Field_merge (Pyramid_complete b) (Pyramid_complete ov)\<rparr>"

text \<open>No field is set, at any depth; and such a struct.\<close>

definition Pyramid_unset :: "Pyramid \<Rightarrow> bool" where
  "Pyramid_unset x \<longleftrightarrow>
     \<not> has (Pyramid_pChns x) \<and> Chns_unset (val (Pyramid_pChns x))
     \<and> \<not> has (Pyramid_nPerOct x)
     \<and> \<not> has (Pyramid_nOctUp x)
     \<and> \<not> has (Pyramid_nApprox x)
     \<and> \<not> has (Pyramid_lambdas x)
     \<and> \<not> has (Pyramid_pad x)
     \<and> \<not> has (Pyramid_minDs x)
     \<and> \<not> has (Pyramid_smooth x)
     \<and> \<not> has (Pyramid_concat x)
     \<and> \<not> has (Pyramid_complete x)"

definition Pyramid_new :: Pyramid where
  "Pyramid_new =
     \<lparr>Pyramid_pChns = Field_new Chns_new,
      Pyramid_nPerOct = Field_new 0,
      Pyramid_nOctUp = Field_new 0,
      Pyramid_nApprox = Field_new 0,
      Pyramid_lambdas = Field_new [],
      Pyramid_pad = Field_new (0, 0),
      Pyramid_minDs = Field_new (0, 0),
      Pyramid_smooth = Field_new 0,
      Pyramid_concat = Field_new 0,
      Pyramid_complete = Field_new 0\<rparr>"

text \<open>\<^verbatim>\<open>Options::Boost::Tree\<close>\<close>

record Tree =
  Tree_nBins :: "int Field"
  Tree_maxDepth :: "int Field"
  Tree_minWeight :: "real Field"
  Tree_fracFtrs :: "real Field"
  Tree_nThreads :: "int Field"

text \<open>
  Modelled from the spec: the body of \<^verbatim>\<open>Options::Boost::Tree::merge\<close>
  (declared at ACF.h:188), field by field.
\<close>

definition Tree_merge :: "Tree \<Rightarrow> Tree \<Rightarrow> int \<Rightarrow> Tree" where
  "Tree_merge b ov mode =
     \<lparr>Tree_nBins = Field_merge (Tree_nBins b) (Tree_nBins ov),
      Tree_maxDepth = Field_merge (Tree_maxDepth b) (Tree_maxDepth ov),
      Tree_minWeight = Field_merge (Tree_minWeight b) (Tree_minWeight ov),
      Tree_fracFtrs = Field_merge (Tree_fracFtrs b) (Tree_fracFtrs ov),
      Tree_nThreads = Field_merge (Tree_nThreads b) (Tree_nThreads ov)\<rparr>"

text \<open>No field is set, at any depth; and such a struct.\<close>

definition Tree_unset :: "Tree \<Rightarrow> bool" where
  "Tree_unset x \<longleftrightarrow>
     \<not> has (Tree_nBins x)
     \<and> \<not> has (Tree_maxDepth x)
     \<and> \<not> has (Tree_minWeight x)
     \<and> \<not> has (Tree_fracFtrs x)
     \<and> \<not> has (Tree_nThreads x)"

definition Tree_new :: Tree where
  "Tree_new =
     \<lparr>Tree_nBins = Field_new 0,
      Tree_maxDepth = Field_new 0,
      Tree_minWeight = Field_new 0,
      Tree_fracFtrs = Field_new 0,
      Tree_nThreads = Field_new 0\<rparr>"

text \<open>\<^verbatim>\<open>Options::Boost\<close>\<close>

record Boost =
  Boost_pTree :: "Tree Field"
  Boost_nWeak :: "int Field"
  Boost_discrete :: "int Field"
  Boost_verbose :: "int Field"

text \<open>
  Modelled from the spec: the body of \<^verbatim>\<open>Options::Boost::merge\<close>
  (declared at ACF.h:196), field by field.
\<close>

definition Boost_merge :: "Boost \<Rightarrow> Boost \<Rightarrow> int \<Rightarrow> Boost" where
  "Boost_merge b ov mode =
     \<lparr>Boost_pTree = Group_merge (\<lambda>x y. Tree_merge x y mode) (Boost_pTree b) (Boost_pTree ov),
      Boost_nWeak = Field_merge (Boost_nWeak b) (Boost_nWeak ov),
      Boost_discrete = Field_merge (Boost_discrete b) (Boost_discrete ov),
      Boost_verbose = Field_merge (Boost_verbose b) (Boost_verbose ov)\<rparr>"

text \<open>No field is set, at any depth; and such a struct.\<close>

definition Boost_unset :: "Boost \<Rightarrow> bool" where
  "Boost_unset x \<longleftrightarrow>
     \<not> has (Boost_pTree x) \<and> Tree_unset (val (Boost_pTree x))
     \<and> \<not> has (Boost_nWeak x)
     \<and> \<not> has (Boost_discrete x)
     \<and> \<not> has (Boost_verbose x)"

definition Boost_new :: Boost where
  "Boost_new =
     \<lparr>Boost_pTree = Field_new Tree_new,
      Boost_nWeak = Field_new 0,
      Boost_discrete = Field_new 0,
      Boost_verbose = Field_new 0\<rparr>"

text \<open>\<^verbatim>\<open>Options::Jitter\<close>\<close>

record Jitter =
  Jitter_flip :: "int Field"

text \<open>
  Modelled from the spec: the body of \<^verbatim>\<open>Options::Jitter::merge\<close>
  (declared at ACF.h:219), field by field.
\<close>

definition Jitter_merge :: "Jitter \<Rightarrow> Jitter \<Rightarrow> int \<Rightarrow> Jitter" where
  "Jitter_merge b ov mode =
     \<lparr>Jitter_flip = Field_merge (Jitter_flip b) (Jitter_flip ov)\<rparr>"

text \<open>No field is set, at any depth; and such a struct.\<close>

definition Jitter_unset :: "Jitter \<Rightarrow> bool" where
  "Jitter_unset x \<longleftrightarrow>
     \<not> has (Jitter_flip x)"

definition Jitter_new :: Jitter where
  "Jitter_new =
     \<lparr>Jitter_flip = Field_new 0\<rparr>"

text \<open>\<^verbatim>\<open>Options\<close>\<close>

record Options =
  Options_pPyramid :: "Pyramid Field"
  Options_modelDs :: "Size Field"
  Options_modelDsPad :: "Size Field"
  Options_pNms :: "Nms Field"
  Options_stride :: "int Field"
  Options_cascThr :: "real Field"
  Options_cascCal :: "real Field"
  Options_nWeak :: "int list Field"
  Options_pBoost :: "Boost Field"
  Options_seed :: "real Field"
  Options_name :: "string Field"
  Options_posGtDir :: "string Field"
  Options_posImgDir :: "string Field"
  Options_negImgDir :: "string Field"
  Options_posWinDir :: "string Field"
  Options_negWinDir :: "string Field"
  Options_nPos :: "int Field"
  Options_nNeg :: "int Field"
  Options_nPerNeg :: "int Field"
  Options_nAccNeg :: "int Field"
  Options_pJitter :: "Jitter Field"
  Options_winsSave :: "int Field"

text \<open>
  Modelled from the spec: the body of \<^verbatim>\<open>Options::merge\<close>
  (declared at ACF.h:226), field by field.
\<close>

definition Options_merge :: "Options \<Rightarrow> Options \<Rightarrow> int \<Rightarrow> Options" where
  "Options_merge b ov mode =
     \<lparr>Options_pPyramid = Group_merge (\<lambda>x y. Pyramid_merge x y mode) (Options_pPyramid b) (Options_pPyramid ov),
      Options_modelDs = Field_merge (Options_modelDs b) (Options_modelDs ov),
      Options_modelDsPad = Field_merge (Options_modelDsPad b) (Options_modelDsPad ov),
      Options_pNms = Group_merge (\<lambda>x y. Nms_merge x y mode) (Options_pNms b) (Options_pNms ov),
      Options_stride = Field_merge (Options_stride b) (Options_stride ov),
      Options_cascThr = Field_merge (Options_cascThr b) (Options_cascThr ov),
      Options_cascCal = Field_merge (Options_cascCal b) (Options_cascCal ov),
      Options_nWeak = Field_merge (Options_nWeak b) (Options_nWeak ov),
      Options_pBoost = Group_merge (\<lambda>x y. Boost_merge x y mode) (Options_pBoost b) (Options_pBoost ov),
      Options_seed = Field_merge (Options_seed b) (Options_seed ov),
      Options_name = Field_merge (Options_name b) (Options_name ov),
      Options_posGtDir = Field_merge (Options_posGtDir b) (Options_posGtDir ov),
      Options_posImgDir = Field_merge (Options_posImgDir b) (Options_posImgDir ov),
      Options_negImgDir = Field_merge (Options_negImgDir b) (Options_negImgDir ov),
      Options_posWinDir = Field_merge (Options_posWinDir b) (Options_posWinDir ov),
      Options_negWinDir = Field_merge (Options_negWinDir b) (Options_negWinDir ov),
      Options_nPos = Field_merge (Options_nPos b) (Options_nPos ov),
      Options_nNeg = Field_merge (Options_nNeg b) (Options_nNeg ov),
      Options_nPerNeg = Field_merge (Options_nPerNeg b) (Options_nPerNeg ov),
      Options_nAccNeg = Field_merge (Options_nAccNeg b) (Options_nAccNeg ov),
      Options_pJitter = Group_merge (\<lambda>x y. Jitter_merge x y mode) (Options_pJitter b) (Options_pJitter ov),
      Options_winsSave = Field_merge (Options_winsSave b) (Options_winsSave ov)\<rparr>"

text \<open>No field is set, at any depth; and such a struct.\<close>

definition Options_unset :: "Options \<Rightarrow> bool" where
  "Options_unset x \<longleftrightarrow>
     \<not> has (Options_pPyramid x) \<and> Pyramid_unset (val (Options_pPyramid x))
     \<and> \<not> has (Options_modelDs x)
     \<and> \<not> has (Options_modelDsPad x)
     \<and> \<not> has (Options_pNms x) \<and> Nms_unset (val (Options_pNms x))
     \<and> \<not> has (Options_stride x)
     \<and> \<not> has (Options_cascThr x)
     \<and> \<not> has (Options_cascCal x)
     \<and> \<not> has (Options_nWeak x)
     \<and> \<not> has (Options_pBoost x) \<and> Boost_unset (val (Options_pBoost x))
     \<and> \<not> has (Options_seed x)
     \<and> \<not> has (Options_name x)
     \<and> \<not> has (Options_posGtDir x)
     \<and> \<not> has (Options_posImgDir x)
     \<and> \<not> has (Options_negImgDir x)
     \<and> \<not> has (Options_posWinDir x)
     \<and> \<not> has (Options_negWinDir x)
     \<and> \<not> has (Options_nPos x)
     \<and> \<not> has (Options_nNeg x)
     \<and> \<not> has (Options_nPerNeg x)
     \<and> \<not> has (Options_nAccNeg x)
     \<and> \<not> has (Options_pJitter x) \<and> Jitter_unset (val (Options_pJitter x))
     \<and> \<not> has (Options_winsSave x)"

definition Options_new :: Options where
  "Options_new =
     \<lparr>Options_pPyramid = Field_new Pyramid_new,
      Options_modelDs = Field_new (0, 0),
      Options_modelDsPad = Field_new (0, 0),
      Options_pNms = Field_new Nms_new,
      Options_stride = Field_new 0,
      Options_cascThr = Field_new 0,
      Options_cascCal = Field_new 0,
      Options_nWeak = Field_new [],
      Options_pBoost = Field_new Boost_new,
      Options_seed = Field_new 0,
      Options_name = Field_new [],
      Options_posGtDir = Field_new [],
      Options_posImgDir = Field_new [],
      Options_negImgDir = Field_new [],
      Options_posWinDir = Field_new [],
      Options_negWinDir = Field_new [],
      Options_nPos = Field_new 0,
      Options_nNeg = Field_new 0,
      Options_nPerNeg = Field_new 0,
      Options_nAccNeg = Field_new 0,
      Options_pJitter = Field_new Jitter_new,
      Options_winsSave = Field_new 0\<rparr>"

text \<open>
  The nested structs of an options tree, read through the fields that hold them, and
  whether a tree explicitly sets the whole chain of fields that leads to one.
\<close>

definition at_pPyramid :: "Options \<Rightarrow> Pyramid" where
  "at_pPyramid x = val (Options_pPyramid x)"

definition set_pPyramid :: "Options \<Rightarrow> bool" where
  "set_pPyramid x \<longleftrightarrow> has (Options_pPyramid x)"

definition at_pChns :: "Options \<Rightarrow> Chns" where
  "at_pChns x = val (Pyramid_pChns (at_pPyramid x))"

definition set_pChns :: "Options \<Rightarrow> bool" where
  "set_pChns x \<longleftrightarrow> set_pPyramid x \<and> has (Pyramid_pChns (at_pPyramid x))"

definition at_pColor :: "Options \<Rightarrow> Color" where
  "at_pColor x = val (Chns_pColor (at_pChns x))"

definition set_pColor :: "Options \<Rightarrow> bool" where
  "set_pColor x \<longleftrightarrow> set_pChns x \<and> has (Chns_pColor (at_pChns x))"

definition at_pGradMag :: "Options \<Rightarrow> GradMag" where
  "at_pGradMag x = val (Chns_pGradMag (at_pChns x))"

definition set_pGradMag :: "Options \<Rightarrow> bool" where
  "set_pGradMag x \<longleftrightarrow> set_pChns x \<and> has (Chns_pGradMag (at_pChns x))"

definition at_pGradHist :: "Options \<Rightarrow> GradHist" where
  "at_pGradHist x = val (Chns_pGradHist (at_pChns x))"

definition set_pGradHist :: "Options \<Rightarrow> bool" where
  "set_pGradHist x \<longleftrightarrow> set_pChns x \<and> has (Chns_pGradHist (at_pChns x))"

definition at_pCustom :: "Options \<Rightarrow> Custom" where
  "at_pCustom x = val (Chns_pCustom (at_pChns x))"

definition set_pCustom :: "Options \<Rightarrow> bool" where
  "set_pCustom x \<longleftrightarrow> set_pChns x \<and> has (Chns_pCustom (at_pChns x))"

definition at_pNms :: "Options \<Rightarrow> Nms" where
  "at_pNms x = val (Options_pNms x)"

definition set_pNms :: "Options \<Rightarrow> bool" where
  "set_pNms x \<longleftrightarrow> has (Options_pNms x)"

definition at_pBoost :: "Options \<Rightarrow> Boost" where
  "at_pBoost x = val (Options_pBoost x)"

definition set_pBoost :: "Options \<Rightarrow> bool" where
  "set_pBoost x \<longleftrightarrow> has (Options_pBoost x)"

definition at_pTree :: "Options \<Rightarrow> Tree" where
  "at_pTree x = val (Boost_pTree (at_pBoost x))"

definition set_pTree :: "Options \<Rightarrow> bool" where
  "set_pTree x \<longleftrightarrow> set_pBoost x \<and> has (Boost_pTree (at_pBoost x))"

definition at_pJitter :: "Options \<Rightarrow> Jitter" where
  "at_pJitter x = val (Options_pJitter x)"

definition set_pJitter :: "Options \<Rightarrow> bool" where
  "set_pJitter x \<longleftrightarrow> has (Options_pJitter x)"

section \<open>Colour conversion (\<^verbatim>\<open>rgb2luv\<close>, ACF.h)\<close>

text \<open>
  \<^verbatim>\<open>rgb2luv\<close> is straight-line code on three floats. The arithmetic is exact here: a
  \<^verbatim>\<open>float\<close> is a real number, a decimal constant of the source is that decimal
  fraction, and \<^verbatim>\<open>std::pow\<close> is the real power. Rounding, overflow and the non-finite
  values of IEEE arithmetic are outside this model.
\<close>

type_synonym Vec3f = "real \<times> real \<times> real"

definition dot :: "Vec3f \<Rightarrow> Vec3f \<Rightarrow> real" where
  "dot u v = (case (u, v) of ((u0, u1, u2), (v0, v1, v2)) \<Rightarrow> u0 * v0 + u1 * v1 + u2 * v2)"

text \<open>
  \<^verbatim>\<open>RGBtoXYZ * rgb\<close> after \<^verbatim>\<open>RGBtoXYZ = RGBtoXYZ.t()\<close>: the nine constants are given
  column by column, so the first row of the matrix applied is the 1st, 4th and 7th of them.
\<close>

definition RGBtoXYZ :: "Vec3f \<Rightarrow> Vec3f" where
  "RGBtoXYZ rgb =
     (dot (0.430574, 0.341550, 0.178325) rgb,
      dot (0.222015, 0.706655, 0.071330) rgb,
      dot (0.020183, 0.129553, 0.939180) rgb)"

definition luv_y0 :: real where "luv_y0 = 0.00885645167"
definition luv_a :: real where "luv_a = 903.296296296"
definition luv_un :: real where "luv_un = 0.197833"
definition luv_vn :: real where "luv_vn = 0.468331"
definition luv_maxi :: real where "luv_maxi = 0.0037037037"
definition luv_minu :: real where "luv_minu = luv_maxi * (- 88)"
definition luv_minv :: real where "luv_minv = luv_maxi * (- 134)"
definition luv_k :: Vec3f where "luv_k = (1, 15, 3)"

text \<open>\<^verbatim>\<open>c = xyz.dot(k) + 1e-35\<close> and \<^verbatim>\<open>z = 1.0/c\<close>.\<close>

definition luv_c :: "Vec3f \<Rightarrow> real" where
  "luv_c rgb = dot (RGBtoXYZ rgb) luv_k + 1 / 10 ^ 35"

definition luv_z :: "Vec3f \<Rightarrow> real" where
  "luv_z rgb = 1 / luv_c rgb"

definition rgb2luv :: "Vec3f \<Rightarrow> Vec3f" where
  "rgb2luv rgb =
     (case RGBtoXYZ rgb of (x0, x1, x2) \<Rightarrow>
        let z = luv_z rgb;
            l = (if x1 > luv_y0 then 116 * x1 powr 0.3333333333 - 16 else x1 * luv_a) * luv_maxi
        in (l,
            l * (52 * x0 * z - 13 * luv_un) - luv_minu,
            l * (117 * x1 * z - 13 * luv_vn) - luv_minv))"

section \<open>Channel fusion (\<^verbatim>\<open>fuseChannels\<close>, ACF.h)\<close>

text \<open>
  \<^verbatim>\<open>fuseChannels\<close> copies the planes of every multi-plane image of an iterator range
  into one vector, concatenates them vertically into a single matrix and then replaces
  each plane by the matching window of that matrix.

  A \<^verbatim>\<open>cv::Mat\<close> is modelled by its column count and the list of its rows; \<open>rows\<close> is the
  length of that list. A well-formed matrix has rows of exactly \<open>cols\<close> entries. The
  entries are kept polymorphic: all planes of one model value share the element type, as
  the planes of the detector do. Sizes are never negative and are naturals here.
  The library calls the function relies on fail as OpenCV does: \<^verbatim>\<open>cv::vconcat\<close>
  asserts equal column counts, \<^verbatim>\<open>Mat::operator()(Rect)\<close> asserts that the window lies
  inside the matrix. \<^verbatim>\<open>stack.front()\<close> on an empty vector and \<^verbatim>\<open>stack[j]\<close> past the
  end are undefined in C++; the model reports them as errors.
\<close>

datatype cv_error = CvAssertFailed | UndefinedFront | IndexOutOfRange | SizeMismatch

record 'a Mat =
  cols :: nat
  rws :: "'a list list"

definition rows :: "'a Mat \<Rightarrow> nat" where
  "rows m = length (rws m)"

definition wf_Mat :: "'a Mat \<Rightarrow> bool" where
  "wf_Mat m = list_all (\<lambda>r. length r = cols m) (rws m)"

record Rect =
  roi_x :: nat
  roi_y :: nat
  roi_width :: nat
  roi_height :: nat

text \<open>
  Modelled from the spec: \<^verbatim>\<open>MatP\<close> (declared in \<^verbatim>\<open>acf/MatP.h\<close>, which is not among the
  sources), the multi-channel tensor, "an ordered sequence of equal-sized 2D planes".
  The function reads the planes through \<^verbatim>\<open>begin()\<close> and \<^verbatim>\<open>end()\<close> and assigns the plane
  vector \<^verbatim>\<open>get()\<close> and the backing matrix \<^verbatim>\<open>base()\<close>.
\<close>

record 'a MatP =
  base :: "'a Mat"
  get :: "'a Mat list"

text \<open>\<^verbatim>\<open>cv::vconcat(stack, base)\<close>: an empty vector releases the destination.\<close>

definition vconcat :: "'a Mat list \<Rightarrow> cv_error + 'a Mat" where
  "vconcat src =
     (case src of
        [] \<Rightarrow> Inr \<lparr>cols = 0, rws = []\<rparr>
      | m0 # _ \<Rightarrow>
          if list_all (\<lambda>m. cols m = cols m0) src
          then Inr \<lparr>cols = cols m0, rws = concat (map rws src)\<rparr>
          else Inl CvAssertFailed)"

text \<open>
  \<^verbatim>\<open>base(roi)\<close>: the window of a matrix under a rectangle. OpenCV releases a window
  without entries, which leaves the empty matrix of size \<open>0 \<times> 0\<close>.
\<close>

definition submat :: "'a Mat \<Rightarrow> Rect \<Rightarrow> cv_error + 'a Mat" where
  "submat m roi =
     (if roi_x roi + roi_width roi \<le> cols m \<and> roi_y roi + roi_height roi \<le> rows m
      then (if roi_width roi = 0 \<or> roi_height roi = 0 then Inr \<lparr>cols = 0, rws = []\<rparr>
            else Inr \<lparr>cols = roi_width roi,
                      rws = map (\<lambda>r. take (roi_width roi) (drop (roi_x roi) r))
                              (take (roi_height roi) (drop (roi_y roi) (rws m)))\<rparr>)
      else Inl CvAssertFailed)"

text \<open>
  The loop \<^verbatim>\<open>for(int j = 0; roi.y < base.rows; j++, roi.y += roi.height) stack[j] = base(roi);\<close>
  Every pass either fails or moves \<open>j\<close> one step towards the end of the vector.
\<close>

function fuse_loop :: "'a Mat \<Rightarrow> Rect \<Rightarrow> nat \<Rightarrow> 'a Mat list \<Rightarrow> cv_error + 'a Mat list" where
  "fuse_loop b roi j stack =
     (if roi_y roi < rows b
      then (if length stack \<le> j then Inl IndexOutOfRange
            else (case submat b roi of
                    Inl e \<Rightarrow> Inl e
                  | Inr m \<Rightarrow> fuse_loop b (roi\<lparr>roi_y := roi_y roi + roi_height roi\<rparr>)
                                       (Suc j) (stack[j := m])))
      else Inr stack)"
  by pat_completeness auto
termination
  by (relation "measure (\<lambda>(b, roi, j, stack). length stack - j)") auto

definition fuseChannels :: "'a MatP list \<Rightarrow> 'a MatP \<Rightarrow> cv_error + 'a MatP" where
  "fuseChannels its Ip =
     (let stack = concat (map get its) in
      case vconcat stack of
        Inl e \<Rightarrow> Inl e
      | Inr b \<Rightarrow>
          (case stack of
             [] \<Rightarrow> Inl UndefinedFront
           | m0 # _ \<Rightarrow>
               (case fuse_loop b \<lparr>roi_x = 0, roi_y = 0, roi_width = cols m0,
                                  roi_height = rows m0\<rparr> 0 stack of
                  Inl e \<Rightarrow> Inl e
                | Inr stack' \<Rightarrow> Inr (Ip\<lparr>base := b, get := stack'\<rparr>))))"

text \<open>All planes have the size of the first one; none has rows without columns.\<close>

definition same_size :: "'a Mat list \<Rightarrow> bool" where
  "same_size ms = list_all (\<lambda>m. rows m = rows (hd ms) \<and> cols m = cols (hd ms)) ms"

definition no_empty_rows :: "'a Mat list \<Rightarrow> bool" where
  "no_empty_rows ms = list_all (\<lambda>m. rows m = 0 \<or> 0 < cols m) ms"

section \<open>Running mean of the cropped faces (facecrop.cpp)\<close>

text \<open>
  Every worker thread owns a \<^verbatim>\<open>FaceJittererMean\<close> that keeps the running mean \<^verbatim>\<open>mu\<close> of
  the faces it has produced and their number \<^verbatim>\<open>count\<close>; \<^verbatim>\<open>computeMeanFace\<close> combines
  the per-thread means at the end.

  A \<^verbatim>\<open>cv::Mat3f\<close> is modelled by its size and its row-major float data (three per
  pixel). The arithmetic is exact: a \<^verbatim>\<open>float\<close> is a real number here, and \<^verbatim>\<open>int\<close> does
  not overflow. OpenCV's element-wise operations fail on operands of different size.
\<close>

record Mat3f =
  m3_rows :: nat
  m3_cols :: nat
  m3_data :: "real list"

text \<open>\<^verbatim>\<open>cv::Mat3f mu;\<close> (default-constructed) and \<^verbatim>\<open>Mat::empty()\<close>.\<close>

definition Mat3f_new :: Mat3f where
  "Mat3f_new = \<lparr>m3_rows = 0, m3_cols = 0, m3_data = []\<rparr>"

definition empty3 :: "Mat3f \<Rightarrow> bool" where
  "empty3 m \<longleftrightarrow> m3_rows m * m3_cols m = 0"

definition same_dims :: "Mat3f \<Rightarrow> Mat3f \<Rightarrow> bool" where
  "same_dims a b \<longleftrightarrow> m3_rows a = m3_rows b \<and> m3_cols a = m3_cols b"

text \<open>\<^verbatim>\<open>a - b\<close>, \<^verbatim>\<open>a + b\<close> (as in \<^verbatim>\<open>a += b\<close>) and \<^verbatim>\<open>s * a\<close>.\<close>

definition mat_sub :: "Mat3f \<Rightarrow> Mat3f \<Rightarrow> cv_error + Mat3f" where
  "mat_sub a b =
     (if same_dims a b then Inr (a\<lparr>m3_data := map2 (-) (m3_data a) (m3_data b)\<rparr>)
      else Inl SizeMismatch)"

definition mat_add :: "Mat3f \<Rightarrow> Mat3f \<Rightarrow> cv_error + Mat3f" where
  "mat_add a b =
     (if same_dims a b then Inr (a\<lparr>m3_data := map2 (+) (m3_data a) (m3_data b)\<rparr>)
      else Inl SizeMismatch)"

definition mat_scale :: "real \<Rightarrow> Mat3f \<Rightarrow> Mat3f" where
  "mat_scale s a = a\<lparr>m3_data := map (\<lambda>v. s * v) (m3_data a)\<rparr>"

record FaceJittererMean =
  mu :: Mat3f
  count :: int

definition FaceJittererMean_new :: FaceJittererMean where
  "FaceJittererMean_new = \<lparr>mu = Mat3f_new, count = 0\<rparr>"

text \<open>
  \<^verbatim>\<open>if(mu.empty()) mu = x.clone(); else mu += (x - mu) * (1.0 / static_cast<float>(n));\<close>
\<close>

definition cumulativeMovingAverage :: "Mat3f \<Rightarrow> Mat3f \<Rightarrow> int \<Rightarrow> cv_error + Mat3f" where
  "cumulativeMovingAverage m x n =
     (if empty3 m then Inr x
      else (case mat_sub x m of
              Inl e \<Rightarrow> Inl e
            | Inr d \<Rightarrow> mat_add m (mat_scale (1 / real_of_int n) d)))"

text \<open>\<^verbatim>\<open>updateMean(const cv::Mat3f &f)\<close>: \<^verbatim>\<open>cumulativeMovingAverage(mu, f, ++count)\<close>.\<close>

definition updateMean :: "FaceJittererMean \<Rightarrow> Mat3f \<Rightarrow> cv_error + FaceJittererMean" where
  "updateMean j f =
     (let n = count j + 1 in
      case cumulativeMovingAverage (mu j) f n of
        Inl e \<Rightarrow> Inl e
      | Inr m \<Rightarrow> Inr \<lparr>mu = m, count = n\<rparr>)"

text \<open>
  The calls of \<^verbatim>\<open>updateMean\<close> that one jitterer receives, in order (the loop of
  \<^verbatim>\<open>updateMean(const std::vector<cv::Mat> &faces)\<close>, image after image, on the faces
  already converted to float).
\<close>

fun updateMean_all :: "FaceJittererMean \<Rightarrow> Mat3f list \<Rightarrow> cv_error + FaceJittererMean" where
  "updateMean_all j [] = Inr j"
| "updateMean_all j (f # fs) =
     (case updateMean j f of
        Inl e \<Rightarrow> Inl e
      | Inr j' \<Rightarrow> updateMean_all j' fs)"

text \<open>
  \<^verbatim>\<open>computeMeanFace\<close>. Modelled from the spec: the resource manager
  (\<^verbatim>\<open>drishti/core/LazyParallelResource.h\<close> is not among the sources), "an explicit
  thread-indexed resource table"; its map is the list of the jitterers in iteration
  order. The first loop adds up the counts, the second one the weighted means.
\<close>

fun mean_loop :: "int \<Rightarrow> Mat3f \<Rightarrow> FaceJittererMean list \<Rightarrow> cv_error + Mat3f" where
  "mean_loop cnt acc [] = Inr acc"
| "mean_loop cnt acc (j # js) =
     (let w = mat_scale (real_of_int (count j) / real_of_int cnt) (mu j) in
      if empty3 acc then mean_loop cnt w js
      else (case mat_add acc w of
              Inl e \<Rightarrow> Inl e
            | Inr acc' \<Rightarrow> mean_loop cnt acc' js))"

definition computeMeanFace :: "FaceJittererMean list \<Rightarrow> cv_error + Mat3f" where
  "computeMeanFace js = mean_loop (foldl (\<lambda>c j. c + count j) 0 js) Mat3f_new js"

text \<open>The samples of a run: float images of one size \<open>r \<times> c\<close>, three floats per pixel.\<close>

definition sample :: "nat \<Rightarrow> nat \<Rightarrow> Mat3f \<Rightarrow> bool" where
  "sample r c x \<longleftrightarrow> m3_rows x = r \<and> m3_cols x = c \<and> length (m3_data x) = 3 * r * c"

text \<open>
  The arithmetic mean of a list of samples: entry by entry, the sum over the samples
  divided by their number.
\<close>

definition arithmetic_mean :: "Mat3f list \<Rightarrow> Mat3f" where
  "arithmetic_mean xs =
     \<lparr>m3_rows = m3_rows (hd xs), m3_cols = m3_cols (hd xs),
      m3_data = map (\<lambda>i. (\<Sum>x\<leftarrow>xs. m3_data x ! i) / real (length xs))
                  [0..<length (m3_data (hd xs))]\<rparr>"

text \<open>The entry-wise sum of a list of samples of size \<open>r \<times> c\<close>, divided by \<open>k\<close>.\<close>

definition scaled_sum :: "nat \<Rightarrow> nat \<Rightarrow> real \<Rightarrow> Mat3f list \<Rightarrow> Mat3f" where
  "scaled_sum r c k xs =
     \<lparr>m3_rows = r, m3_cols = c,
      m3_data = map (\<lambda>i. (\<Sum>x\<leftarrow>xs. m3_data x ! i) / k) [0..<3 * r * c]\<rparr>"

section \<open>Laws of the options merge\<close>

lemma Field_merge_idem: "Field_merge (Field_merge b ov) ov = Field_merge b ov"
  by (simp add: Field_merge_def)

lemma Group_merge_idem:
  assumes "\<And>x y. m (m x y) y = m x y"
  shows "Group_merge m (Group_merge m b ov) ov = Group_merge m b ov"
  by (simp add: Group_merge_def assms)

lemma Field_merge_unset: "\<not> has ov \<Longrightarrow> Field_merge b ov = b"
  by (simp add: Field_merge_def)

lemma Group_merge_unset: "\<not> has ov \<Longrightarrow> Group_merge m b ov = b"
  by (simp add: Group_merge_def)

lemma val_Group_merge:
  "val (Group_merge m b ov) = (if has ov then m (val b) (val ov) else val b)"
  by (simp add: Group_merge_def)

lemma has_Group_merge:
  "has (Group_merge m b ov) = (if has ov then True else has b)"
  by (simp add: Group_merge_def)

lemma Custom_merge_idem: "Custom_merge (Custom_merge b ov mode) ov mode = Custom_merge b ov mode"
  by (simp add: Custom_merge_def)

lemma Custom_merge_unset: "Custom_unset ov \<Longrightarrow> Custom_merge b ov mode = b"
  by (simp add: Custom_merge_def)

lemma Nms_merge_idem: "Nms_merge (Nms_merge b ov mode) ov mode = Nms_merge b ov mode"
  by (simp add: Nms_merge_def Field_merge_idem Group_merge_idem )

lemma Nms_merge_unset: "Nms_unset ov \<Longrightarrow> Nms_merge b ov mode = b"
  by (simp add: Nms_merge_def Nms_unset_def Field_merge_unset Group_merge_unset)

lemma Color_merge_idem: "Color_merge (Color_merge b ov mode) ov mode = Color_merge b ov mode"
  by (simp add: Color_merge_def Field_merge_idem Group_merge_idem )

lemma Color_merge_unset: "Color_unset ov \<Longrightarrow> Color_merge b ov mode = b"
  by (simp add: Color_merge_def Color_unset_def Field_merge_unset Group_merge_unset)

lemma GradMag_merge_idem: "GradMag_merge (GradMag_merge b ov mode) ov mode = GradMag_merge b ov mode"
  by (simp add: GradMag_merge_def Field_merge_idem Group_merge_idem )

lemma GradMag_merge_unset: "GradMag_unset ov \<Longrightarrow> GradMag_merge b ov mode = b"
  by (simp add: GradMag_merge_def GradMag_unset_def Field_merge_unset Group_merge_unset)

lemma GradHist_merge_idem: "GradHist_merge (GradHist_merge b ov mode) ov mode = GradHist_merge b ov mode"
  by (simp add: GradHist_merge_def Field_merge_idem Group_merge_idem )

lemma GradHist_merge_unset: "GradHist_unset ov \<Longrightarrow> GradHist_merge b ov mode = b"
  by (simp add: GradHist_merge_def GradHist_unset_def Field_merge_unset Group_merge_unset)

lemma Chns_merge_idem: "Chns_merge (Chns_merge b ov mode) ov mode = Chns_merge b ov mode"
  by (simp add: Chns_merge_def Field_merge_idem Group_merge_idem Color_merge_idem GradMag_merge_idem GradHist_merge_idem Custom_merge_idem)

lemma Chns_merge_unset: "Chns_unset ov \<Longrightarrow> Chns_merge b ov mode = b"
  by (simp add: Chns_merge_def Chns_unset_def Field_merge_unset Group_merge_unset)

lemma Pyramid_merge_idem: "Pyramid_merge (Pyramid_merge b ov mode) ov mode = Pyramid_merge b ov mode"
  by (simp add: Pyramid_merge_def Field_merge_idem Group_merge_idem Chns_merge_idem)

lemma Pyramid_merge_unset: "Pyramid_unset ov \<Longrightarrow> Pyramid_merge b ov mode = b"
  by (simp add: Pyramid_merge_def Pyramid_unset_def Field_merge_unset Group_merge_unset)

lemma Tree_merge_idem: "Tree_merge (Tree_merge b ov mode) ov mode = Tree_merge b ov mode"
  by (simp add: Tree_merge_def Field_merge_idem Group_merge_idem )

lemma Tree_merge_unset: "Tree_unset ov \<Longrightarrow> Tree_merge b ov mode = b"
  by (simp add: Tree_merge_def Tree_unset_def Field_merge_unset Group_merge_unset)

lemma Boost_merge_idem: "Boost_merge (Boost_merge b ov mode) ov mode = Boost_merge b ov mode"
  by (simp add: Boost_merge_def Field_merge_idem Group_merge_idem Tree_merge_idem)

lemma Boost_merge_unset: "Boost_unset ov \<Longrightarrow> Boost_merge b ov mode = b"
  by (simp add: Boost_merge_def Boost_unset_def Field_merge_unset Group_merge_unset)

lemma Jitter_merge_idem: "Jitter_merge (Jitter_merge b ov mode) ov mode = Jitter_merge b ov mode"
  by (simp add: Jitter_merge_def Field_merge_idem Group_merge_idem )

lemma Jitter_merge_unset: "Jitter_unset ov \<Longrightarrow> Jitter_merge b ov mode = b"
  by (simp add: Jitter_merge_def Jitter_unset_def Field_merge_unset Group_merge_unset)

lemma Options_merge_idem: "Options_merge (Options_merge b ov mode) ov mode = Options_merge b ov mode"
  by (simp add: Options_merge_def Field_merge_idem Group_merge_idem Pyramid_merge_idem Nms_merge_idem Boost_merge_idem Jitter_merge_idem)

lemma Options_merge_unset: "Options_unset ov \<Longrightarrow> Options_merge b ov mode = b"
  by (simp add: Options_merge_def Options_unset_def Field_merge_unset Group_merge_unset)

text \<open>What the merged tree holds at each nested struct.\<close>

lemma at_pPyramid_merge:
  "at_pPyramid (Options_merge b ov mode) =
     (if set_pPyramid ov then Pyramid_merge (at_pPyramid b) (at_pPyramid ov) mode else at_pPyramid b)"
  by (simp add: at_pPyramid_def set_pPyramid_def Options_merge_def val_Group_merge)

lemma at_pChns_merge:
  "at_pChns (Options_merge b ov mode) =
     (if set_pChns ov then Chns_merge (at_pChns b) (at_pChns ov) mode else at_pChns b)"
  by (simp add: at_pChns_def set_pChns_def at_pPyramid_merge Pyramid_merge_def val_Group_merge)

lemma at_pColor_merge:
  "at_pColor (Options_merge b ov mode) =
     (if set_pColor ov then Color_merge (at_pColor b) (at_pColor ov) mode else at_pColor b)"
  by (simp add: at_pColor_def set_pColor_def at_pChns_merge Chns_merge_def val_Group_merge)

lemma at_pGradMag_merge:
  "at_pGradMag (Options_merge b ov mode) =
     (if set_pGradMag ov then GradMag_merge (at_pGradMag b) (at_pGradMag ov) mode else at_pGradMag b)"
  by (simp add: at_pGradMag_def set_pGradMag_def at_pChns_merge Chns_merge_def val_Group_merge)

lemma at_pGradHist_merge:
  "at_pGradHist (Options_merge b ov mode) =
     (if set_pGradHist ov then GradHist_merge (at_pGradHist b) (at_pGradHist ov) mode else at_pGradHist b)"
  by (simp add: at_pGradHist_def set_pGradHist_def at_pChns_merge Chns_merge_def val_Group_merge)

lemma at_pCustom_merge:
  "at_pCustom (Options_merge b ov mode) =
     (if set_pCustom ov then Custom_merge (at_pCustom b) (at_pCustom ov) mode else at_pCustom b)"
  by (simp add: at_pCustom_def set_pCustom_def at_pChns_merge Chns_merge_def val_Group_merge)

lemma at_pNms_merge:
  "at_pNms (Options_merge b ov mode) =
     (if set_pNms ov then Nms_merge (at_pNms b) (at_pNms ov) mode else at_pNms b)"
  by (simp add: at_pNms_def set_pNms_def Options_merge_def val_Group_merge)

lemma at_pBoost_merge:
  "at_pBoost (Options_merge b ov mode) =
     (if set_pBoost ov then Boost_merge (at_pBoost b) (at_pBoost ov) mode else at_pBoost b)"
  by (simp add: at_pBoost_def set_pBoost_def Options_merge_def val_Group_merge)

lemma at_pTree_merge:
  "at_pTree (Options_merge b ov mode) =
     (if set_pTree ov then Tree_merge (at_pTree b) (at_pTree ov) mode else at_pTree b)"
  by (simp add: at_pTree_def set_pTree_def at_pBoost_merge Boost_merge_def val_Group_merge)

lemma at_pJitter_merge:
  "at_pJitter (Options_merge b ov mode) =
     (if set_pJitter ov then Jitter_merge (at_pJitter b) (at_pJitter ov) mode else at_pJitter b)"
  by (simp add: at_pJitter_def set_pJitter_def Options_merge_def val_Group_merge)

text \<open>
  Field by field: the merged tree holds the override's field where the override explicitly
  sets it (and the structs around it), and the base's field otherwise.
\<close>

lemma exact_Options:
  "has (Options_pPyramid (Options_merge b ov mode)) =
       (if has (Options_pPyramid ov)
        then True
        else has (Options_pPyramid b))"
  "Options_modelDs (Options_merge b ov mode) =
       (if has (Options_modelDs ov)
        then Options_modelDs ov
        else Options_modelDs b)"
  "Options_modelDsPad (Options_merge b ov mode) =
       (if has (Options_modelDsPad ov)
        then Options_modelDsPad ov
        else Options_modelDsPad b)"
  "has (Options_pNms (Options_merge b ov mode)) =
       (if has (Options_pNms ov)
        then True
        else has (Options_pNms b))"
  "Options_stride (Options_merge b ov mode) =
       (if has (Options_stride ov)
        then Options_stride ov
        else Options_stride b)"
  "Options_cascThr (Options_merge b ov mode) =
       (if has (Options_cascThr ov)
        then Options_cascThr ov
        else Options_cascThr b)"
  "Options_cascCal (Options_merge b ov mode) =
       (if has (Options_cascCal ov)
        then Options_cascCal ov
        else Options_cascCal b)"
  "Options_nWeak (Options_merge b ov mode) =
       (if has (Options_nWeak ov)
        then Options_nWeak ov
        else Options_nWeak b)"
  "has (Options_pBoost (Options_merge b ov mode)) =
       (if has (Options_pBoost ov)
        then True
        else has (Options_pBoost b))"
  "Options_seed (Options_merge b ov mode) =
       (if has (Options_seed ov)
        then Options_seed ov
        else Options_seed b)"
  "Options_name (Options_merge b ov mode) =
       (if has (Options_name ov)
        then Options_name ov
        else Options_name b)"
  "Options_posGtDir (Options_merge b ov mode) =
       (if has (Options_posGtDir ov)
        then Options_posGtDir ov
        else Options_posGtDir b)"
  "Options_posImgDir (Options_merge b ov mode) =
       (if has (Options_posImgDir ov)
        then Options_posImgDir ov
        else Options_posImgDir b)"
  "Options_negImgDir (Options_merge b ov mode) =
       (if has (Options_negImgDir ov)
        then Options_negImgDir ov
        else Options_negImgDir b)"
  "Options_posWinDir (Options_merge b ov mode) =
       (if has (Options_posWinDir ov)
        then Options_posWinDir ov
        else Options_posWinDir b)"
  "Options_negWinDir (Options_merge b ov mode) =
       (if has (Options_negWinDir ov)
        then Options_negWinDir ov
        else Options_negWinDir b)"
  "Options_nPos (Options_merge b ov mode) =
       (if has (Options_nPos ov)
        then Options_nPos ov
        else Options_nPos b)"
  "Options_nNeg (Options_merge b ov mode) =
       (if has (Options_nNeg ov)
        then Options_nNeg ov
        else Options_nNeg b)"
  "Options_nPerNeg (Options_merge b ov mode) =
       (if has (Options_nPerNeg ov)
        then Options_nPerNeg ov
        else Options_nPerNeg b)"
  "Options_nAccNeg (Options_merge b ov mode) =
       (if has (Options_nAccNeg ov)
        then Options_nAccNeg ov
        else Options_nAccNeg b)"
  "has (Options_pJitter (Options_merge b ov mode)) =
       (if has (Options_pJitter ov)
        then True
        else has (Options_pJitter b))"
  "Options_winsSave (Options_merge b ov mode) =
       (if has (Options_winsSave ov)
        then Options_winsSave ov
        else Options_winsSave b)"
  by (simp_all add: Options_merge_def Field_merge_def has_Group_merge)

lemma exact_pPyramid:
  "has (Pyramid_pChns (at_pPyramid (Options_merge b ov mode))) =
       (if set_pPyramid ov \<and> has (Pyramid_pChns (at_pPyramid ov))
        then True
        else has (Pyramid_pChns (at_pPyramid b)))"
  "Pyramid_nPerOct (at_pPyramid (Options_merge b ov mode)) =
       (if set_pPyramid ov \<and> has (Pyramid_nPerOct (at_pPyramid ov))
        then Pyramid_nPerOct (at_pPyramid ov)
        else Pyramid_nPerOct (at_pPyramid b))"
  "Pyramid_nOctUp (at_pPyramid (Options_merge b ov mode)) =
       (if set_pPyramid ov \<and> has (Pyramid_nOctUp (at_pPyramid ov))
        then Pyramid_nOctUp (at_pPyramid ov)
        else Pyramid_nOctUp (at_pPyramid b))"
  "Pyramid_nApprox (at_pPyramid (Options_merge b ov mode)) =
       (if set_pPyramid ov \<and> has (Pyramid_nApprox (at_pPyramid ov))
        then Pyramid_nApprox (at_pPyramid ov)
        else Pyramid_nApprox (at_pPyramid b))"
  "Pyramid_lambdas (at_pPyramid (Options_merge b ov mode)) =
       (if set_pPyramid ov \<and> has (Pyramid_lambdas (at_pPyramid ov))
        then Pyramid_lambdas (at_pPyramid ov)
        else Pyramid_lambdas (at_pPyramid b))"
  "Pyramid_pad (at_pPyramid (Options_merge b ov mode)) =
       (if set_pPyramid ov \<and> has (Pyramid_pad (at_pPyramid ov))
        then Pyramid_pad (at_pPyramid ov)
        else Pyramid_pad (at_pPyramid b))"
  "Pyramid_minDs (at_pPyramid (Options_merge b ov mode)) =
       (if set_pPyramid ov \<and> has (Pyramid_minDs (at_pPyramid ov))
        then Pyramid_minDs (at_pPyramid ov)
        else Pyramid_minDs (at_pPyramid b))"
  "Pyramid_smooth (at_pPyramid (Options_merge b ov mode)) =
       (if set_pPyramid ov \<and> has (Pyramid_smooth (at_pPyramid ov))
        then Pyramid_smooth (at_pPyramid ov)
        else Pyramid_smooth (at_pPyramid b))"
  "Pyramid_concat (at_pPyramid (Options_merge b ov mode)) =
       (if set_pPyramid ov \<and> has (Pyramid_concat (at_pPyramid ov))
        then Pyramid_concat (at_pPyramid ov)
        else Pyramid_concat (at_pPyramid b))"
  "Pyramid_complete (at_pPyramid (Options_merge b ov mode)) =
       (if set_pPyramid ov \<and> has (Pyramid_complete (at_pPyramid ov))
        then Pyramid_complete (at_pPyramid ov)
        else Pyramid_complete (at_pPyramid b))"
  by (simp_all add: at_pPyramid_merge Pyramid_merge_def Field_merge_def has_Group_merge)

lemma exact_pChns:
  "Chns_shrink (at_pChns (Options_merge b ov mode)) =
       (if set_pChns ov \<and> has (Chns_shrink (at_pChns ov))
        then Chns_shrink (at_pChns ov)
        else Chns_shrink (at_pChns b))"
  "has (Chns_pColor (at_pChns (Options_merge b ov mode))) =
       (if set_pChns ov \<and> has (Chns_pColor (at_pChns ov))
        then True
        else has (Chns_pColor (at_pChns b)))"
  "has (Chns_pGradMag (at_pChns (Options_merge b ov mode))) =
       (if set_pChns ov \<and> has (Chns_pGradMag (at_pChns ov))
        then True
        else has (Chns_pGradMag (at_pChns b)))"
  "has (Chns_pGradHist (at_pChns (Options_merge b ov mode))) =
       (if set_pChns ov \<and> has (Chns_pGradHist (at_pChns ov))
        then True
        else has (Chns_pGradHist (at_pChns b)))"
  "has (Chns_pCustom (at_pChns (Options_merge b ov mode))) =
       (if set_pChns ov \<and> has (Chns_pCustom (at_pChns ov))
        then True
        else has (Chns_pCustom (at_pChns b)))"
  "Chns_complete (at_pChns (Options_merge b ov mode)) =
       (if set_pChns ov \<and> has (Chns_complete (at_pChns ov))
        then Chns_complete (at_pChns ov)
        else Chns_complete (at_pChns b))"
  by (simp_all add: at_pChns_merge Chns_merge_def Field_merge_def has_Group_merge)

lemma exact_pColor:
  "Color_enabled (at_pColor (Options_merge b ov mode)) =
       (if set_pColor ov \<and> has (Color_enabled (at_pColor ov))
        then Color_enabled (at_pColor ov)
        else Color_enabled (at_pColor b))"
  "Color_smooth (at_pColor (Options_merge b ov mode)) =
       (if set_pColor ov \<and> has (Color_smooth (at_pColor ov))
        then Color_smooth (at_pColor ov)
        else Color_smooth (at_pColor b))"
  "Color_colorSpace (at_pColor (Options_merge b ov mode)) =
       (if set_pColor ov \<and> has (Color_colorSpace (at_pColor ov))
        then Color_colorSpace (at_pColor ov)
        else Color_colorSpace (at_pColor b))"
  by (simp_all add: at_pColor_merge Color_merge_def Field_merge_def has_Group_merge)

lemma exact_pGradMag:
  "GradMag_enabled (at_pGradMag (Options_merge b ov mode)) =
       (if set_pGradMag ov \<and> has (GradMag_enabled (at_pGradMag ov))
        then GradMag_enabled (at_pGradMag ov)
        else GradMag_enabled (at_pGradMag b))"
  "GradMag_colorChn (at_pGradMag (Options_merge b ov mode)) =
       (if set_pGradMag ov \<and> has (GradMag_colorChn (at_pGradMag ov))
        then GradMag_colorChn (at_pGradMag ov)
        else GradMag_colorChn (at_pGradMag b))"
  "GradMag_normRad (at_pGradMag (Options_merge b ov mode)) =
       (if set_pGradMag ov \<and> has (GradMag_normRad (at_pGradMag ov))
        then GradMag_normRad (at_pGradMag ov)
        else GradMag_normRad (at_pGradMag b))"
  "GradMag_normConst (at_pGradMag (Options_merge b ov mode)) =
       (if set_pGradMag ov \<and> has (GradMag_normConst (at_pGradMag ov))
        then GradMag_normConst (at_pGradMag ov)
        else GradMag_normConst (at_pGradMag b))"
  "GradMag_full (at_pGradMag (Options_merge b ov mode)) =
       (if set_pGradMag ov \<and> has (GradMag_full (at_pGradMag ov))
        then GradMag_full (at_pGradMag ov)
        else GradMag_full (at_pGradMag b))"
  by (simp_all add: at_pGradMag_merge GradMag_merge_def Field_merge_def has_Group_merge)

lemma exact_pGradHist:
  "GradHist_enabled (at_pGradHist (Options_merge b ov mode)) =
       (if set_pGradHist ov \<and> has (GradHist_enabled (at_pGradHist ov))
        then GradHist_enabled (at_pGradHist ov)
        else GradHist_enabled (at_pGradHist b))"
  "GradHist_binSize (at_pGradHist (Options_merge b ov mode)) =
       (if set_pGradHist ov \<and> has (GradHist_binSize (at_pGradHist ov))
        then GradHist_binSize (at_pGradHist ov)
        else GradHist_binSize (at_pGradHist b))"
  "GradHist_nOrients (at_pGradHist (Options_merge b ov mode)) =
       (if set_pGradHist ov \<and> has (GradHist_nOrients (at_pGradHist ov))
        then GradHist_nOrients (at_pGradHist ov)
        else GradHist_nOrients (at_pGradHist b))"
  "GradHist_softBin (at_pGradHist (Options_merge b ov mode)) =
       (if set_pGradHist ov \<and> has (GradHist_softBin (at_pGradHist ov))
        then GradHist_softBin (at_pGradHist ov)
        else GradHist_softBin (at_pGradHist b))"
  "GradHist_useHog (at_pGradHist (Options_merge b ov mode)) =
       (if set_pGradHist ov \<and> has (GradHist_useHog (at_pGradHist ov))
        then GradHist_useHog (at_pGradHist ov)
        else GradHist_useHog (at_pGradHist b))"
  "GradHist_clipHog (at_pGradHist (Options_merge b ov mode)) =
       (if set_pGradHist ov \<and> has (GradHist_clipHog (at_pGradHist ov))
        then GradHist_clipHog (at_pGradHist ov)
        else GradHist_clipHog (at_pGradHist b))"
  by (simp_all add: at_pGradHist_merge GradHist_merge_def Field_merge_def has_Group_merge)

lemma exact_pNms:
  "Nms_type (at_pNms (Options_merge b ov mode)) =
       (if set_pNms ov \<and> has (Nms_type (at_pNms ov))
        then Nms_type (at_pNms ov)
        else Nms_type (at_pNms b))"
  "Nms_thr (at_pNms (Options_merge b ov mode)) =
       (if set_pNms ov \<and> has (Nms_thr (at_pNms ov))
        then Nms_thr (at_pNms ov)
        else Nms_thr (at_pNms b))"
  "Nms_maxn (at_pNms (Options_merge b ov mode)) =
       (if set_pNms ov \<and> has (Nms_maxn (at_pNms ov))
        then Nms_maxn (at_pNms ov)
        else Nms_maxn (at_pNms b))"
  "Nms_radii (at_pNms (Options_merge b ov mode)) =
       (if set_pNms ov \<and> has (Nms_radii (at_pNms ov))
        then Nms_radii (at_pNms ov)
        else Nms_radii (at_pNms b))"
  "Nms_overlap (at_pNms (Options_merge b ov mode)) =
       (if set_pNms ov \<and> has (Nms_overlap (at_pNms ov))
        then Nms_overlap (at_pNms ov)
        else Nms_overlap (at_pNms b))"
  "Nms_ovrDnm (at_pNms (Options_merge b ov mode)) =
       (if set_pNms ov \<and> has (Nms_ovrDnm (at_pNms ov))
        then Nms_ovrDnm (at_pNms ov)
        else Nms_ovrDnm (at_pNms b))"
  "Nms_separate (at_pNms (Options_merge b ov mode)) =
       (if set_pNms ov \<and> has (Nms_separate (at_pNms ov))
        then Nms_separate (at_pNms ov)
        else Nms_separate (at_pNms b))"
  by (simp_all add: at_pNms_merge Nms_merge_def Field_merge_def has_Group_merge)

lemma exact_pBoost:
  "has (Boost_pTree (at_pBoost (Options_merge b ov mode))) =
       (if set_pBoost ov \<and> has (Boost_pTree (at_pBoost ov))
        then True
        else has (Boost_pTree (at_pBoost b)))"
  "Boost_nWeak (at_pBoost (Options_merge b ov mode)) =
       (if set_pBoost ov \<and> has (Boost_nWeak (at_pBoost ov))
        then Boost_nWeak (at_pBoost ov)
        else Boost_nWeak (at_pBoost b))"
  "Boost_discrete (at_pBoost (Options_merge b ov mode)) =
       (if set_pBoost ov \<and> has (Boost_discrete (at_pBoost ov))
        then Boost_discrete (at_pBoost ov)
        else Boost_discrete (at_pBoost b))"
  "Boost_verbose (at_pBoost (Options_merge b ov mode)) =
       (if set_pBoost ov \<and> has (Boost_verbose (at_pBoost ov))
        then Boost_verbose (at_pBoost ov)
        else Boost_verbose (at_pBoost b))"
  by (simp_all add: at_pBoost_merge Boost_merge_def Field_merge_def has_Group_merge)

lemma exact_pTree:
  "Tree_nBins (at_pTree (Options_merge b ov mode)) =
       (if set_pTree ov \<and> has (Tree_nBins (at_pTree ov))
        then Tree_nBins (at_pTree ov)
        else Tree_nBins (at_pTree b))"
  "Tree_maxDepth (at_pTree (Options_merge b ov mode)) =
       (if set_pTree ov \<and> has (Tree_maxDepth (at_pTree ov))
        then Tree_maxDepth (at_pTree ov)
        else Tree_maxDepth (at_pTree b))"
  "Tree_minWeight (at_pTree (Options_merge b ov mode)) =
       (if set_pTree ov \<and> has (Tree_minWeight (at_pTree ov))
        then Tree_minWeight (at_pTree ov)
        else Tree_minWeight (at_pTree b))"
  "Tree_fracFtrs (at_pTree (Options_merge b ov mode)) =
       (if set_pTree ov \<and> has (Tree_fracFtrs (at_pTree ov))
        then Tree_fracFtrs (at_pTree ov)
        else Tree_fracFtrs (at_pTree b))"
  "Tree_nThreads (at_pTree (Options_merge b ov mode)) =
       (if set_pTree ov \<and> has (Tree_nThreads (at_pTree ov))
        then Tree_nThreads (at_pTree ov)
        else Tree_nThreads (at_pTree b))"
  by (simp_all add: at_pTree_merge Tree_merge_def Field_merge_def has_Group_merge)

lemma exact_pJitter:
  "Jitter_flip (at_pJitter (Options_merge b ov mode)) =
       (if set_pJitter ov \<and> has (Jitter_flip (at_pJitter ov))
        then Jitter_flip (at_pJitter ov)
        else Jitter_flip (at_pJitter b))"
  by (simp_all add: at_pJitter_merge Jitter_merge_def Field_merge_def has_Group_merge)

text \<open>
  Claim C3. For every base tree, override tree and mode: applying the merge a second time
  with the same override changes nothing; an override in which no field is set leaves the
  base as it is; and every field of the merged tree, at every depth, is the override's
  where the override explicitly sets it together with the structs that contain it, and the
  base's otherwise (for a field that holds a struct this is said of its flag, its members
  being fields themselves).
\<close>

theorem Options_merge_laws:
  "Options_merge (Options_merge b ov mode) ov mode = Options_merge b ov mode
   \<and> (Options_unset ov \<longrightarrow> Options_merge b ov mode = b)
   \<and> has (Options_pPyramid (Options_merge b ov mode)) =
       (if has (Options_pPyramid ov)
        then True
        else has (Options_pPyramid b))
   \<and> Options_modelDs (Options_merge b ov mode) =
       (if has (Options_modelDs ov)
        then Options_modelDs ov
        else Options_modelDs b)
   \<and> Options_modelDsPad (Options_merge b ov mode) =
       (if has (Options_modelDsPad ov)
        then Options_modelDsPad ov
        else Options_modelDsPad b)
   \<and> has (Options_pNms (Options_merge b ov mode)) =
       (if has (Options_pNms ov)
        then True
        else has (Options_pNms b))
   \<and> Options_stride (Options_merge b ov mode) =
       (if has (Options_stride ov)
        then Options_stride ov
        else Options_stride b)
   \<and> Options_cascThr (Options_merge b ov mode) =
       (if has (Options_cascThr ov)
        then Options_cascThr ov
        else Options_cascThr b)
   \<and> Options_cascCal (Options_merge b ov mode) =
       (if has (Options_cascCal ov)
        then Options_cascCal ov
        else Options_cascCal b)
   \<and> Options_nWeak (Options_merge b ov mode) =
       (if has (Options_nWeak ov)
        then Options_nWeak ov
        else Options_nWeak b)
   \<and> has (Options_pBoost (Options_merge b ov mode)) =
       (if has (Options_pBoost ov)
        then True
        else has (Options_pBoost b))
   \<and> Options_seed (Options_merge b ov mode) =
       (if has (Options_seed ov)
        then Options_seed ov
        else Options_seed b)
   \<and> Options_name (Options_merge b ov mode) =
       (if has (Options_name ov)
        then Options_name ov
        else Options_name b)
   \<and> Options_posGtDir (Options_merge b ov mode) =
       (if has (Options_posGtDir ov)
        then Options_posGtDir ov
        else Options_posGtDir b)
   \<and> Options_posImgDir (Options_merge b ov mode) =
       (if has (Options_posImgDir ov)
        then Options_posImgDir ov
        else Options_posImgDir b)
   \<and> Options_negImgDir (Options_merge b ov mode) =
       (if has (Options_negImgDir ov)
        then Options_negImgDir ov
        else Options_negImgDir b)
   \<and> Options_posWinDir (Options_merge b ov mode) =
       (if has (Options_posWinDir ov)
        then Options_posWinDir ov
        else Options_posWinDir b)
   \<and> Options_negWinDir (Options_merge b ov mode) =
       (if has (Options_negWinDir ov)
        then Options_negWinDir ov
        else Options_negWinDir b)
   \<and> Options_nPos (Options_merge b ov mode) =
       (if has (Options_nPos ov)
        then Options_nPos ov
        else Options_nPos b)
   \<and> Options_nNeg (Options_merge b ov mode) =
       (if has (Options_nNeg ov)
        then Options_nNeg ov
        else Options_nNeg b)
   \<and> Options_nPerNeg (Options_merge b ov mode) =
       (if has (Options_nPerNeg ov)
        then Options_nPerNeg ov
        else Options_nPerNeg b)
   \<and> Options_nAccNeg (Options_merge b ov mode) =
       (if has (Options_nAccNeg ov)
        then Options_nAccNeg ov
        else Options_nAccNeg b)
   \<and> has (Options_pJitter (Options_merge b ov mode)) =
       (if has (Options_pJitter ov)
        then True
        else has (Options_pJitter b))
   \<and> Options_winsSave (Options_merge b ov mode) =
       (if has (Options_winsSave ov)
        then Options_winsSave ov
        else Options_winsSave b)
   \<and> has (Pyramid_pChns (at_pPyramid (Options_merge b ov mode))) =
       (if set_pPyramid ov \<and> has (Pyramid_pChns (at_pPyramid ov))
        then True
        else has (Pyramid_pChns (at_pPyramid b)))
   \<and> Pyramid_nPerOct (at_pPyramid (Options_merge b ov mode)) =
       (if set_pPyramid ov \<and> has (Pyramid_nPerOct (at_pPyramid ov))
        then Pyramid_nPerOct (at_pPyramid ov)
        else Pyramid_nPerOct (at_pPyramid b))
   \<and> Pyramid_nOctUp (at_pPyramid (Options_merge b ov mode)) =
       (if set_pPyramid ov \<and> has (Pyramid_nOctUp (at_pPyramid ov))
        then Pyramid_nOctUp (at_pPyramid ov)
        else Pyramid_nOctUp (at_pPyramid b))
   \<and> Pyramid_nApprox (at_pPyramid (Options_merge b ov mode)) =
       (if set_pPyramid ov \<and> has (Pyramid_nApprox (at_pPyramid ov))
        then Pyramid_nApprox (at_pPyramid ov)
        else Pyramid_nApprox (at_pPyramid b))
   \<and> Pyramid_lambdas (at_pPyramid (Options_merge b ov mode)) =
       (if set_pPyramid ov \<and> has (Pyramid_lambdas (at_pPyramid ov))
        then Pyramid_lambdas (at_pPyramid ov)
        else Pyramid_lambdas (at_pPyramid b))
   \<and> Pyramid_pad (at_pPyramid (Options_merge b ov mode)) =
       (if set_pPyramid ov \<and> has (Pyramid_pad (at_pPyramid ov))
        then Pyramid_pad (at_pPyramid ov)
        else Pyramid_pad (at_pPyramid b))
   \<and> Pyramid_minDs (at_pPyramid (Options_merge b ov mode)) =
       (if set_pPyramid ov \<and> has (Pyramid_minDs (at_pPyramid ov))
        then Pyramid_minDs (at_pPyramid ov)
        else Pyramid_minDs (at_pPyramid b))
   \<and> Pyramid_smooth (at_pPyramid (Options_merge b ov mode)) =
       (if set_pPyramid ov \<and> has (Pyramid_smooth (at_pPyramid ov))
        then Pyramid_smooth (at_pPyramid ov)
        else Pyramid_smooth (at_pPyramid b))
   \<and> Pyramid_concat (at_pPyramid (Options_merge b ov mode)) =
       (if set_pPyramid ov \<and> has (Pyramid_concat (at_pPyramid ov))
        then Pyramid_concat (at_pPyramid ov)
        else Pyramid_concat (at_pPyramid b))
   \<and> Pyramid_complete (at_pPyramid (Options_merge b ov mode)) =
       (if set_pPyramid ov \<and> has (Pyramid_complete (at_pPyramid ov))
        then Pyramid_complete (at_pPyramid ov)
        else Pyramid_complete (at_pPyramid b))
   \<and> Chns_shrink (at_pChns (Options_merge b ov mode)) =
       (if set_pChns ov \<and> has (Chns_shrink (at_pChns ov))
        then Chns_shrink (at_pChns ov)
        else Chns_shrink (at_pChns b))
   \<and> has (Chns_pColor (at_pChns (Options_merge b ov mode))) =
       (if set_pChns ov \<and> has (Chns_pColor (at_pChns ov))
        then True
        else has (Chns_pColor (at_pChns b)))
   \<and> has (Chns_pGradMag (at_pChns (Options_merge b ov mode))) =
       (if set_pChns ov \<and> has (Chns_pGradMag (at_pChns ov))
        then True
        else has (Chns_pGradMag (at_pChns b)))
   \<and> has (Chns_pGradHist (at_pChns (Options_merge b ov mode))) =
       (if set_pChns ov \<and> has (Chns_pGradHist (at_pChns ov))
        then True
        else has (Chns_pGradHist (at_pChns b)))
   \<and> has (Chns_pCustom (at_pChns (Options_merge b ov mode))) =
       (if set_pChns ov \<and> has (Chns_pCustom (at_pChns ov))
        then True
        else has (Chns_pCustom (at_pChns b)))
   \<and> Chns_complete (at_pChns (Options_merge b ov mode)) =
       (if set_pChns ov \<and> has (Chns_complete (at_pChns ov))
        then Chns_complete (at_pChns ov)
        else Chns_complete (at_pChns b))
   \<and> Color_enabled (at_pColor (Options_merge b ov mode)) =
       (if set_pColor ov \<and> has (Color_enabled (at_pColor ov))
        then Color_enabled (at_pColor ov)
        else Color_enabled (at_pColor b))
   \<and> Color_smooth (at_pColor (Options_merge b ov mode)) =
       (if set_pColor ov \<and> has (Color_smooth (at_pColor ov))
        then Color_smooth (at_pColor ov)
        else Color_smooth (at_pColor b))
   \<and> Color_colorSpace (at_pColor (Options_merge b ov mode)) =
       (if set_pColor ov \<and> has (Color_colorSpace (at_pColor ov))
        then Color_colorSpace (at_pColor ov)
        else Color_colorSpace (at_pColor b))
   \<and> GradMag_enabled (at_pGradMag (Options_merge b ov mode)) =
       (if set_pGradMag ov \<and> has (GradMag_enabled (at_pGradMag ov))
        then GradMag_enabled (at_pGradMag ov)
        else GradMag_enabled (at_pGradMag b))
   \<and> GradMag_colorChn (at_pGradMag (Options_merge b ov mode)) =
       (if set_pGradMag ov \<and> has (GradMag_colorChn (at_pGradMag ov))
        then GradMag_colorChn (at_pGradMag ov)
        else GradMag_colorChn (at_pGradMag b))
   \<and> GradMag_normRad (at_pGradMag (Options_merge b ov mode)) =
       (if set_pGradMag ov \<and> has (GradMag_normRad (at_pGradMag ov))
        then GradMag_normRad (at_pGradMag ov)
        else GradMag_normRad (at_pGradMag b))
   \<and> GradMag_normConst (at_pGradMag (Options_merge b ov mode)) =
       (if set_pGradMag ov \<and> has (GradMag_normConst (at_pGradMag ov))
        then GradMag_normConst (at_pGradMag ov)
        else GradMag_normConst (at_pGradMag b))
   \<and> GradMag_full (at_pGradMag (Options_merge b ov mode)) =
       (if set_pGradMag ov \<and> has (GradMag_full (at_pGradMag ov))
        then GradMag_full (at_pGradMag ov)
        else GradMag_full (at_pGradMag b))
   \<and> GradHist_enabled (at_pGradHist (Options_merge b ov mode)) =
       (if set_pGradHist ov \<and> has (GradHist_enabled (at_pGradHist ov))
        then GradHist_enabled (at_pGradHist ov)
        else GradHist_enabled (at_pGradHist b))
   \<and> GradHist_binSize (at_pGradHist (Options_merge b ov mode)) =
       (if set_pGradHist ov \<and> has (GradHist_binSize (at_pGradHist ov))
        then GradHist_binSize (at_pGradHist ov)
        else GradHist_binSize (at_pGradHist b))
   \<and> GradHist_nOrients (at_pGradHist (Options_merge b ov mode)) =
       (if set_pGradHist ov \<and> has (GradHist_nOrients (at_pGradHist ov))
        then GradHist_nOrients (at_pGradHist ov)
        else GradHist_nOrients (at_pGradHist b))
   \<and> GradHist_softBin (at_pGradHist (Options_merge b ov mode)) =
       (if set_pGradHist ov \<and> has (GradHist_softBin (at_pGradHist ov))
        then GradHist_softBin (at_pGradHist ov)
        else GradHist_softBin (at_pGradHist b))
   \<and> GradHist_useHog (at_pGradHist (Options_merge b ov mode)) =
       (if set_pGradHist ov \<and> has (GradHist_useHog (at_pGradHist ov))
        then GradHist_useHog (at_pGradHist ov)
        else GradHist_useHog (at_pGradHist b))
   \<and> GradHist_clipHog (at_pGradHist (Options_merge b ov mode)) =
       (if set_pGradHist ov \<and> has (GradHist_clipHog (at_pGradHist ov))
        then GradHist_clipHog (at_pGradHist ov)
        else GradHist_clipHog (at_pGradHist b))
   \<and> Nms_type (at_pNms (Options_merge b ov mode)) =
       (if set_pNms ov \<and> has (Nms_type (at_pNms ov))
        then Nms_type (at_pNms ov)
        else Nms_type (at_pNms b))
   \<and> Nms_thr (at_pNms (Options_merge b ov mode)) =
       (if set_pNms ov \<and> has (Nms_thr (at_pNms ov))
        then Nms_thr (at_pNms ov)
        else Nms_thr (at_pNms b))
   \<and> Nms_maxn (at_pNms (Options_merge b ov mode)) =
       (if set_pNms ov \<and> has (Nms_maxn (at_pNms ov))
        then Nms_maxn (at_pNms ov)
        else Nms_maxn (at_pNms b))
   \<and> Nms_radii (at_pNms (Options_merge b ov mode)) =
       (if set_pNms ov \<and> has (Nms_radii (at_pNms ov))
        then Nms_radii (at_pNms ov)
        else Nms_radii (at_pNms b))
   \<and> Nms_overlap (at_pNms (Options_merge b ov mode)) =
       (if set_pNms ov \<and> has (Nms_overlap (at_pNms ov))
        then Nms_overlap (at_pNms ov)
        else Nms_overlap (at_pNms b))
   \<and> Nms_ovrDnm (at_pNms (Options_merge b ov mode)) =
       (if set_pNms ov \<and> has (Nms_ovrDnm (at_pNms ov))
        then Nms_ovrDnm (at_pNms ov)
        else Nms_ovrDnm (at_pNms b))
   \<and> Nms_separate (at_pNms (Options_merge b ov mode)) =
       (if set_pNms ov \<and> has (Nms_separate (at_pNms ov))
        then Nms_separate (at_pNms ov)
        else Nms_separate (at_pNms b))
   \<and> has (Boost_pTree (at_pBoost (Options_merge b ov mode))) =
       (if set_pBoost ov \<and> has (Boost_pTree (at_pBoost ov))
        then True
        else has (Boost_pTree (at_pBoost b)))
   \<and> Boost_nWeak (at_pBoost (Options_merge b ov mode)) =
       (if set_pBoost ov \<and> has (Boost_nWeak (at_pBoost ov))
        then Boost_nWeak (at_pBoost ov)
        else Boost_nWeak (at_pBoost b))
   \<and> Boost_discrete (at_pBoost (Options_merge b ov mode)) =
       (if set_pBoost ov \<and> has (Boost_discrete (at_pBoost ov))
        then Boost_discrete (at_pBoost ov)
        else Boost_discrete (at_pBoost b))
   \<and> Boost_verbose (at_pBoost (Options_merge b ov mode)) =
       (if set_pBoost ov \<and> has (Boost_verbose (at_pBoost ov))
        then Boost_verbose (at_pBoost ov)
        else Boost_verbose (at_pBoost b))
   \<and> Tree_nBins (at_pTree (Options_merge b ov mode)) =
       (if set_pTree ov \<and> has (Tree_nBins (at_pTree ov))
        then Tree_nBins (at_pTree ov)
        else Tree_nBins (at_pTree b))
   \<and> Tree_maxDepth (at_pTree (Options_merge b ov mode)) =
       (if set_pTree ov \<and> has (Tree_maxDepth (at_pTree ov))
        then Tree_maxDepth (at_pTree ov)
        else Tree_maxDepth (at_pTree b))
   \<and> Tree_minWeight (at_pTree (Options_merge b ov mode)) =
       (if set_pTree ov \<and> has (Tree_minWeight (at_pTree ov))
        then Tree_minWeight (at_pTree ov)
        else Tree_minWeight (at_pTree b))
   \<and> Tree_fracFtrs (at_pTree (Options_merge b ov mode)) =
       (if set_pTree ov \<and> has (Tree_fracFtrs (at_pTree ov))
        then Tree_fracFtrs (at_pTree ov)
        else Tree_fracFtrs (at_pTree b))
   \<and> Tree_nThreads (at_pTree (Options_merge b ov mode)) =
       (if set_pTree ov \<and> has (Tree_nThreads (at_pTree ov))
        then Tree_nThreads (at_pTree ov)
        else Tree_nThreads (at_pTree b))
   \<and> Jitter_flip (at_pJitter (Options_merge b ov mode)) =
       (if set_pJitter ov \<and> has (Jitter_flip (at_pJitter ov))
        then Jitter_flip (at_pJitter ov)
        else Jitter_flip (at_pJitter b))"
  by (intro conjI impI)
    (rule Options_merge_idem Options_merge_unset
       exact_Options exact_pPyramid exact_pChns exact_pColor exact_pGradMag
       exact_pGradHist exact_pNms exact_pBoost exact_pTree exact_pJitter
     | assumption)+

theorem Options_merge_laws_witness:
  "Options_unset Options_new
   \<and> Options_merge (Options_new\<lparr>Options_stride := \<lparr>has = True, val = 4\<rparr>\<rparr>) Options_new 0
       = Options_new\<lparr>Options_stride := \<lparr>has = True, val = 4\<rparr>\<rparr>
   \<and> Options_stride
         (Options_merge (Options_new\<lparr>Options_stride := \<lparr>has = True, val = 4\<rparr>\<rparr>)
            (Options_new\<lparr>Options_stride := \<lparr>has = True, val = 2\<rparr>\<rparr>) 0)
       = \<lparr>has = True, val = 2\<rparr>"
proof -
  let ?b = "Options_new\<lparr>Options_stride := \<lparr>has = True, val = 4\<rparr>\<rparr>"
  let ?ov = "Options_new\<lparr>Options_stride := \<lparr>has = True, val = 2\<rparr>\<rparr>"
  have u: "Options_unset Options_new"
    by (simp add: Field_new_def
        Custom_unset_def Custom_new_def Nms_unset_def Nms_new_def Color_unset_def Color_new_def
        GradMag_unset_def GradMag_new_def GradHist_unset_def GradHist_new_def Chns_unset_def Chns_new_def
        Pyramid_unset_def Pyramid_new_def
        Tree_unset_def Tree_new_def Boost_unset_def Boost_new_def
        Jitter_unset_def Jitter_new_def Options_unset_def Options_new_def)
  from Options_merge_laws [of ?b Options_new 0, THEN conjunct2, THEN conjunct1, THEN mp, OF u]
  have i: "Options_merge ?b Options_new 0 = ?b" .
  from Options_merge_laws [of ?b ?ov 0, THEN conjunct2, THEN conjunct2, THEN conjunct2,
      THEN conjunct2, THEN conjunct2, THEN conjunct2,
      THEN conjunct1]
  have r: "Options_stride (Options_merge ?b ?ov 0) = \<lparr>has = True, val = 2\<rparr>"
    by simp
  from u i r show ?thesis by blast
qed

section \<open>The denominator of \<^verbatim>\<open>rgb2luv\<close>\<close>

lemma RGBtoXYZ_nonneg:
  assumes "0 \<le> r" "0 \<le> g" "0 \<le> b"
  shows "0 \<le> dot (RGBtoXYZ (r, g, b)) luv_k"
proof -
  have "dot (RGBtoXYZ (r, g, b)) luv_k
      = (0.430574 + 15 * 0.222015 + 3 * 0.020183) * r
      + (0.341550 + 15 * 0.706655 + 3 * 0.129553) * g
      + (0.178325 + 15 * 0.071330 + 3 * 0.939180) * b"
    by (simp add: dot_def RGBtoXYZ_def luv_k_def algebra_simps)
  also have "0 \<le> \<dots>" using assms by simp
  finally show ?thesis .
qed

text \<open>
  Claim C8. \<^verbatim>\<open>rgb2luv\<close> has no failing branch: it returns a triple for every input, and
  the number it divides by is the dot product of the XYZ vector with \<open>(1, 15, 3)\<close> plus
  \<open>1 / 10 ^ 35\<close>. For an input with non-negative components that number is strictly
  positive, so the factor \<open>z\<close> is its reciprocal and the division is defined.
\<close>

theorem rgb2luv_denominator_positive:
  "(\<exists>l u v. rgb2luv (r, g, b) = (l, u, v)
       \<and> u = l * (52 * fst (RGBtoXYZ (r, g, b)) / luv_c (r, g, b) - 13 * luv_un) - luv_minu
       \<and> v = l * (117 * fst (snd (RGBtoXYZ (r, g, b))) / luv_c (r, g, b) - 13 * luv_vn)
             - luv_minv)
   \<and> luv_c (r, g, b) = dot (RGBtoXYZ (r, g, b)) (1, 15, 3) + 1 / 10 ^ 35
   \<and> (0 \<le> r \<and> 0 \<le> g \<and> 0 \<le> b \<longrightarrow>
        0 < luv_c (r, g, b) \<and> luv_c (r, g, b) * luv_z (r, g, b) = 1)"
proof -
  have t: "\<exists>l u v. rgb2luv (r, g, b) = (l, u, v)
        \<and> u = l * (52 * fst (RGBtoXYZ (r, g, b)) / luv_c (r, g, b) - 13 * luv_un) - luv_minu
        \<and> v = l * (117 * fst (snd (RGBtoXYZ (r, g, b))) / luv_c (r, g, b) - 13 * luv_vn)
              - luv_minv"
    by (cases "RGBtoXYZ (r, g, b)") (simp add: rgb2luv_def Let_def luv_z_def)
  have c: "luv_c (r, g, b) = dot (RGBtoXYZ (r, g, b)) (1, 15, 3) + 1 / 10 ^ 35"
    by (simp add: luv_c_def luv_k_def)
  have p: "0 < luv_c (r, g, b) \<and> luv_c (r, g, b) * luv_z (r, g, b) = 1"
    if nonneg: "0 \<le> r \<and> 0 \<le> g \<and> 0 \<le> b"
  proof -
    have "0 \<le> dot (RGBtoXYZ (r, g, b)) luv_k"
      using nonneg by (intro RGBtoXYZ_nonneg) simp_all
    moreover have "(0::real) < 1 / 10 ^ 35" by simp
    ultimately have pos: "0 < luv_c (r, g, b)"
      unfolding luv_c_def by linarith
    then show ?thesis by (simp add: luv_z_def)
  qed
  from t c p show ?thesis by blast
qed

theorem rgb2luv_denominator_positive_witness:
  "luv_c (0, 0, 0) = 1 / 10 ^ 35 \<and> 0 < luv_c (0, 0, 0) \<and> luv_c (0, 0, 0) * luv_z (0, 0, 0) = 1"
proof -
  note t = rgb2luv_denominator_positive [of 0 0 0]
  have h: "(0::real) \<le> 0 \<and> (0::real) \<le> 0 \<and> (0::real) \<le> 0" by simp
  have "dot (RGBtoXYZ (0, 0, 0)) (1, 15, 3) = 0"
    by (simp add: dot_def RGBtoXYZ_def)
  with t have c: "luv_c (0, 0, 0) = 1 / 10 ^ 35" by simp
  from t h have "0 < luv_c (0, 0, 0) \<and> luv_c (0, 0, 0) * luv_z (0, 0, 0) = 1" by blast
  with c show ?thesis by blast
qed

section \<open>Channel fusion keeps the planes\<close>

lemma take_drop_concat_block:
  "\<forall>xs \<in> set xss. length xs = h \<Longrightarrow> j < length xss \<Longrightarrow>
     take h (drop (j * h) (concat xss)) = xss ! j"
proof (induction xss arbitrary: j)
  case Nil
  then show ?case by simp
next
  case (Cons a xss)
  show ?case
  proof (cases j)
    case 0
    with Cons.prems show ?thesis by simp
  next
    case (Suc k)
    with Cons.prems have "k < length xss" and la: "length a = h" by simp_all
    with Cons have "take h (drop (k * h) (concat xss)) = xss ! k" by simp
    with Suc la show ?thesis by (simp add: add.commute)
  qed
qed

lemma rows_vconcat_blocks:
  "\<forall>m \<in> set stack. rows m = h \<Longrightarrow>
     rows \<lparr>cols = c, rws = concat (map rws stack)\<rparr> = length stack * h"
  by (induction stack) (auto simp: rows_def)

lemma vconcat_same_cols:
  assumes "stack \<noteq> []" and "\<forall>m \<in> set stack. cols m = c"
  shows "vconcat stack = Inr \<lparr>cols = c, rws = concat (map rws stack)\<rparr>"
proof -
  from assms(1) obtain m0 ms where st: "stack = m0 # ms" by (cases stack) auto
  with assms(2) have "cols m0 = c" by simp
  moreover from assms(2) this have "list_all (\<lambda>m. cols m = cols m0) stack"
    by (simp add: list_all_iff)
  ultimately show ?thesis using st by (simp add: vconcat_def)
qed

lemma submat_block:
  assumes wf: "\<forall>m \<in> set stack. wf_Mat m"
    and sz: "\<forall>m \<in> set stack. rows m = h \<and> cols m = c"
    and j: "j < length stack" and pos: "0 < h" "0 < c"
  shows "submat \<lparr>cols = c, rws = concat (map rws stack)\<rparr>
           \<lparr>roi_x = 0, roi_y = j * h, roi_width = c, roi_height = h\<rparr> = Inr (stack ! j)"
proof -
  let ?b = "\<lparr>cols = c, rws = concat (map rws stack)\<rparr>"
  have len: "\<forall>xs \<in> set (map rws stack). length xs = h"
    using sz by (auto simp: rows_def)
  have rows_b: "rows ?b = length stack * h"
    using sz by (simp add: rows_vconcat_blocks)
  have blk: "take h (drop (j * h) (concat (map rws stack))) = rws (stack ! j)"
    using take_drop_concat_block [OF len] j by simp
  have mem: "stack ! j \<in> set stack" using j by simp
  have "\<forall>r \<in> set (rws (stack ! j)). length r = c"
    using wf sz mem by (auto simp: wf_Mat_def list_all_iff)
  then have idm: "map (\<lambda>r. take c (drop 0 r)) (rws (stack ! j)) = rws (stack ! j)"
    by (simp add: map_idI)
  have "Suc j * h \<le> length stack * h"
    using j by (simp add: Suc_leI mult_le_mono1 del: mult_Suc)
  then have bound: "j * h + h \<le> rows ?b" using rows_b by simp
  have "cols (stack ! j) = c" using sz mem by blast
  then have "\<lparr>cols = c, rws = rws (stack ! j)\<rparr> = stack ! j" by simp
  with bound blk idm pos show ?thesis by (simp add: submat_def)
qed

text \<open>
  On planes of one size the window of pass \<open>j\<close> is plane \<open>j\<close> itself, so the loop leaves
  the vector as it found it and stops at its end.
\<close>

lemma fuse_loop_same_size:
  assumes wf: "\<forall>m \<in> set stack. wf_Mat m"
    and sz: "\<forall>m \<in> set stack. rows m = h \<and> cols m = c"
    and ne: "h = 0 \<or> 0 < c"
  shows "j \<le> length stack \<Longrightarrow>
         fuse_loop \<lparr>cols = c, rws = concat (map rws stack)\<rparr>
           \<lparr>roi_x = 0, roi_y = j * h, roi_width = c, roi_height = h\<rparr> j stack = Inr stack"
proof (induction "length stack - j" arbitrary: j)
  case 0
  then have "j = length stack" by simp
  moreover have "rows \<lparr>cols = c, rws = concat (map rws stack)\<rparr> = length stack * h"
    using sz by (simp add: rows_vconcat_blocks)
  ultimately show ?case by (subst fuse_loop.simps) simp
next
  case (Suc d)
  then have j: "j < length stack" by simp
  have step: "fuse_loop \<lparr>cols = c, rws = concat (map rws stack)\<rparr>
           \<lparr>roi_x = 0, roi_y = Suc j * h, roi_width = c, roi_height = h\<rparr> (Suc j) stack
         = Inr stack"
    using Suc.hyps(1) [of "Suc j"] Suc.hyps(2) j by simp
  show ?case
  proof (cases "j * h < rows \<lparr>cols = c, rws = concat (map rws stack)\<rparr>")
    case True
    moreover have "rows \<lparr>cols = c, rws = concat (map rws stack)\<rparr> = length stack * h"
      using sz by (simp add: rows_vconcat_blocks)
    ultimately have "0 < h" by (cases h) simp_all
    moreover from this ne have "0 < c" by simp
    ultimately have "submat \<lparr>cols = c, rws = concat (map rws stack)\<rparr>
           \<lparr>roi_x = 0, roi_y = j * h, roi_width = c, roi_height = h\<rparr> = Inr (stack ! j)"
      by (intro submat_block [OF wf sz j])
    with True show ?thesis
      using j step by (subst fuse_loop.simps) (simp add: add.commute)
  next
    case False
    then show ?thesis by (subst fuse_loop.simps) simp
  qed
qed

text \<open>
  Claim C10. For a range of multi-plane images that holds at least one plane, all planes
  well-formed matrices of one size, \<^verbatim>\<open>fuseChannels\<close> succeeds; the plane vector it stores
  is the concatenation of the input plane vectors in iteration order, so its length is the
  sum of the input plane counts and its \<open>j\<close>-th plane is the \<open>j\<close>-th input plane; the
  backing matrix is the vertical concatenation of these planes. A non-empty range of
  images that each hold a plane is such a range. Planes that have rows but no columns are
  left aside: they hold no entry, and their windows come back of size \<open>0 \<times> 0\<close>.
\<close>

theorem fuseChannels_preserves_planes:
  assumes ne: "concat (map get its) \<noteq> []"
    and wf: "list_all wf_Mat (concat (map get its))"
    and sz: "same_size (concat (map get its))"
    and nr: "no_empty_rows (concat (map get its))"
  shows "\<exists>b. fuseChannels its Ip = Inr (Ip\<lparr>base := b, get := concat (map get its)\<rparr>)
            \<and> vconcat (concat (map get its)) = Inr b
            \<and> length (concat (map get its)) = sum_list (map (\<lambda>ip. length (get ip)) its)"
proof -
  let ?stack = "concat (map get its)"
  from ne obtain m0 ms where st: "?stack = m0 # ms" by (cases ?stack) auto
  have wf': "\<forall>m \<in> set ?stack. wf_Mat m" using wf by (simp add: list_all_iff)
  have sz': "\<forall>m \<in> set ?stack. rows m = rows m0 \<and> cols m = cols m0"
    using sz st by (simp add: same_size_def list_all_iff)
  then have vc: "vconcat ?stack = Inr \<lparr>cols = cols m0, rws = concat (map rws ?stack)\<rparr>"
    using vconcat_same_cols [OF ne] by blast
  have "rows m0 = 0 \<or> 0 < cols m0"
    using nr st by (simp add: no_empty_rows_def)
  then have lp: "fuse_loop \<lparr>cols = cols m0, rws = concat (map rws ?stack)\<rparr>
           \<lparr>roi_x = 0, roi_y = 0, roi_width = cols m0, roi_height = rows m0\<rparr> 0 ?stack
         = Inr ?stack"
    using fuse_loop_same_size [OF wf' sz', of 0] by simp
  have "fuseChannels its Ip
      = Inr (Ip\<lparr>base := \<lparr>cols = cols m0, rws = concat (map rws ?stack)\<rparr>, get := ?stack\<rparr>)"
    unfolding fuseChannels_def Let_def vc using st lp by simp
  moreover have "length ?stack = sum_list (map (\<lambda>ip. length (get ip)) its)"
    by (simp add: length_concat comp_def)
  ultimately show ?thesis using vc by blast
qed

theorem fuseChannels_preserves_planes_witness:
  "concat (map get [\<lparr>base = \<lparr>cols = 0, rws = []\<rparr>,
                     get = [\<lparr>cols = 2, rws = [[1::nat, 2], [3, 4]]\<rparr>,
                            \<lparr>cols = 2, rws = [[5, 6], [7, 8]]\<rparr>]\<rparr>,
                    \<lparr>base = \<lparr>cols = 0, rws = []\<rparr>,
                     get = [\<lparr>cols = 2, rws = [[9, 10], [11, 12]]\<rparr>]\<rparr>]) \<noteq> []
   \<and> fuseChannels [\<lparr>base = \<lparr>cols = 0, rws = []\<rparr>,
                     get = [\<lparr>cols = 2, rws = [[1::nat, 2], [3, 4]]\<rparr>,
                            \<lparr>cols = 2, rws = [[5, 6], [7, 8]]\<rparr>]\<rparr>,
                    \<lparr>base = \<lparr>cols = 0, rws = []\<rparr>,
                     get = [\<lparr>cols = 2, rws = [[9, 10], [11, 12]]\<rparr>]\<rparr>]
        \<lparr>base = \<lparr>cols = 0, rws = []\<rparr>, get = []\<rparr>
     = Inr \<lparr>base = \<lparr>cols = 2, rws = [[1, 2], [3, 4], [5, 6], [7, 8], [9, 10], [11, 12]]\<rparr>,
            get = [\<lparr>cols = 2, rws = [[1, 2], [3, 4]]\<rparr>,
                   \<lparr>cols = 2, rws = [[5, 6], [7, 8]]\<rparr>,
                   \<lparr>cols = 2, rws = [[9, 10], [11, 12]]\<rparr>]\<rparr>"
proof -
  let ?its = "[\<lparr>base = \<lparr>cols = 0, rws = []\<rparr>,
                get = [\<lparr>cols = 2, rws = [[1::nat, 2], [3, 4]]\<rparr>,
                       \<lparr>cols = 2, rws = [[5, 6], [7, 8]]\<rparr>]\<rparr>,
               \<lparr>base = \<lparr>cols = 0, rws = []\<rparr>,
                get = [\<lparr>cols = 2, rws = [[9, 10], [11, 12]]\<rparr>]\<rparr>]"
  have ne: "concat (map get ?its) \<noteq> []" by simp
  have wf: "list_all wf_Mat (concat (map get ?its))" by (simp add: wf_Mat_def)
  have sz: "same_size (concat (map get ?its))" by (simp add: same_size_def rows_def)
  have nr: "no_empty_rows (concat (map get ?its))" by (simp add: no_empty_rows_def)
  from fuseChannels_preserves_planes [OF ne wf sz nr, of "\<lparr>base = \<lparr>cols = 0, rws = []\<rparr>, get = []\<rparr>"]
  obtain b where f: "fuseChannels ?its \<lparr>base = \<lparr>cols = 0, rws = []\<rparr>, get = []\<rparr>
                       = Inr (\<lparr>base = \<lparr>cols = 0, rws = []\<rparr>, get = []\<rparr>
                                \<lparr>base := b, get := concat (map get ?its)\<rparr>)"
    and v: "vconcat (concat (map get ?its)) = Inr b" by blast
  from v have "b = \<lparr>cols = 2, rws = [[1, 2], [3, 4], [5, 6], [7, 8], [9, 10], [11, 12]]\<rparr>"
    by (simp add: vconcat_def)
  with f ne show ?thesis by simp
qed

section \<open>The running mean is the arithmetic mean\<close>

text \<open>The sum of the samples, entry by entry, divided by \<open>k\<close>.\<close>

lemma arithmetic_mean_eq:
  assumes "xs \<noteq> []" and "\<forall>x \<in> set xs. sample r c x"
  shows "arithmetic_mean xs =
     \<lparr>m3_rows = r, m3_cols = c,
      m3_data = map (\<lambda>i. (\<Sum>x\<leftarrow>xs. m3_data x ! i) / real (length xs)) [0..<3 * r * c]\<rparr>"
proof -
  from assms have "sample r c (hd xs)" by simp
  then show ?thesis by (simp add: arithmetic_mean_def sample_def)
qed

lemma arithmetic_mean_single:
  assumes "sample r c f"
  shows "arithmetic_mean [f] = f"
proof -
  have "map (\<lambda>i. m3_data f ! i) [0..<length (m3_data f)] = m3_data f"
    by (rule map_nth)
  then show ?thesis by (simp add: arithmetic_mean_def)
qed

lemma cma_pointwise:
  fixes s x n :: real
  assumes "0 < n"
  shows "s / n + (x - s / n) / (n + 1) = (s + x) / (n + 1)"
proof -
  have n: "n \<noteq> 0" and n1: "n + 1 \<noteq> 0" using assms by simp_all
  have "s / n + (x - s / n) / (n + 1) = (s / n * (n + 1) + (x - s / n)) / (n + 1)"
    using n1 by (simp add: add_divide_distrib)
  also have "s / n * (n + 1) = s + s / n"
    using n by (simp add: distrib_left)
  finally show ?thesis by simp
qed

lemma updateMean_first:
  "updateMean FaceJittererMean_new f = Inr \<lparr>mu = f, count = 1\<rparr>"
  by (simp add: updateMean_def cumulativeMovingAverage_def FaceJittererMean_new_def
      Mat3f_new_def empty3_def)

lemma updateMean_step:
  assumes ne: "ys \<noteq> []" and ys: "\<forall>x \<in> set ys. sample r c x" and f: "sample r c f"
    and pos: "0 < r" "0 < c"
  shows "updateMean \<lparr>mu = arithmetic_mean ys, count = int (length ys)\<rparr> f
       = Inr \<lparr>mu = arithmetic_mean (ys @ [f]), count = int (length (ys @ [f]))\<rparr>"
proof -
  let ?n = "real (length ys)"
  let ?d = "3 * r * c"
  let ?S = "\<lambda>i. (\<Sum>x\<leftarrow>ys. m3_data x ! i)"
  have n0: "0 < ?n" using ne by simp
  have my: "arithmetic_mean ys = \<lparr>m3_rows = r, m3_cols = c, m3_data = map (\<lambda>i. ?S i / ?n) [0..<?d]\<rparr>"
    using arithmetic_mean_eq [OF ne ys] .
  have "\<forall>x \<in> set (ys @ [f]). sample r c x" using ys f by simp
  then have myf: "arithmetic_mean (ys @ [f])
      = \<lparr>m3_rows = r, m3_cols = c, m3_data = map (\<lambda>i. (?S i + m3_data f ! i) / (?n + 1)) [0..<?d]\<rparr>"
    using arithmetic_mean_eq [of "ys @ [f]" r c] by (simp add: add.commute)
  have fr: "m3_rows f = r" "m3_cols f = c" and fl: "length (m3_data f) = ?d"
    using f by (simp_all add: sample_def)
  have nonempty: "\<not> empty3 (arithmetic_mean ys)" using pos by (simp add: my empty3_def)
  have sub: "mat_sub f (arithmetic_mean ys)
      = Inr \<lparr>m3_rows = r, m3_cols = c, m3_data = map (\<lambda>i. m3_data f ! i - ?S i / ?n) [0..<?d]\<rparr>"
  proof -
    have "map2 (-) (m3_data f) (map (\<lambda>i. ?S i / ?n) [0..<?d])
        = map (\<lambda>i. m3_data f ! i - ?S i / ?n) [0..<?d]"
      using fl by (intro nth_equalityI) simp_all
    then show ?thesis using fr by (cases f) (simp add: mat_sub_def same_dims_def my)
  qed
  have add: "mat_add (arithmetic_mean ys)
       (mat_scale (1 / real_of_int (int (length ys) + 1))
          \<lparr>m3_rows = r, m3_cols = c, m3_data = map (\<lambda>i. m3_data f ! i - ?S i / ?n) [0..<?d]\<rparr>)
      = Inr (arithmetic_mean (ys @ [f]))"
  proof -
    have pt: "?S i / ?n + (m3_data f ! i - ?S i / ?n) / (?n + 1)
            = (?S i + m3_data f ! i) / (?n + 1)" for i
      using n0 by (rule cma_pointwise)
    have "map2 (+) (map (\<lambda>i. ?S i / ?n) [0..<?d])
            (map (\<lambda>v. 1 / (?n + 1) * v) (map (\<lambda>i. m3_data f ! i - ?S i / ?n) [0..<?d]))
        = map (\<lambda>i. (?S i + m3_data f ! i) / (?n + 1)) [0..<?d]"
      by (intro nth_equalityI) (simp_all add: pt)
    then show ?thesis
      by (simp add: mat_add_def mat_scale_def same_dims_def my myf add.commute)
  qed
  show ?thesis
    using nonempty sub add
    by (simp add: updateMean_def cumulativeMovingAverage_def Let_def)
qed

lemma updateMean_all_from:
  assumes pos: "0 < r" "0 < c"
  shows "ys \<noteq> [] \<Longrightarrow> \<forall>x \<in> set (ys @ fs). sample r c x \<Longrightarrow>
     updateMean_all \<lparr>mu = arithmetic_mean ys, count = int (length ys)\<rparr> fs
       = Inr \<lparr>mu = arithmetic_mean (ys @ fs), count = int (length (ys @ fs))\<rparr>"
proof (induction fs arbitrary: ys)
  case Nil
  then show ?case by simp
next
  case (Cons f fs)
  have st: "updateMean \<lparr>mu = arithmetic_mean ys, count = int (length ys)\<rparr> f
       = Inr \<lparr>mu = arithmetic_mean (ys @ [f]), count = int (length (ys @ [f]))\<rparr>"
    using Cons.prems pos by (intro updateMean_step [where r = r and c = c]) simp_all
  have "updateMean_all \<lparr>mu = arithmetic_mean (ys @ [f]), count = int (length (ys @ [f]))\<rparr> fs
       = Inr \<lparr>mu = arithmetic_mean ((ys @ [f]) @ fs), count = int (length ((ys @ [f]) @ fs))\<rparr>"
    using Cons.prems by (intro Cons.IH) simp_all
  with st show ?case by simp
qed

lemma updateMean_all_mean:
  assumes pos: "0 < r" "0 < c" and ne: "xs \<noteq> []" and xs: "\<forall>x \<in> set xs. sample r c x"
  shows "updateMean_all FaceJittererMean_new xs
       = Inr \<lparr>mu = arithmetic_mean xs, count = int (length xs)\<rparr>"
proof -
  from ne obtain f fs where xs_eq: "xs = f # fs" by (cases xs) auto
  with xs have f: "sample r c f" by simp
  have "updateMean_all \<lparr>mu = arithmetic_mean [f], count = int (length [f])\<rparr> fs
       = Inr \<lparr>mu = arithmetic_mean ([f] @ fs), count = int (length ([f] @ fs))\<rparr>"
    using xs xs_eq by (intro updateMean_all_from [OF pos, where ys = "[f]"]) simp_all
  then show ?thesis
    using xs_eq by (simp add: updateMean_first arithmetic_mean_single [OF f])
qed

text \<open>The weighted combination of the per-thread means.\<close>

lemma count_loop_sum:
  "foldl (\<lambda>c j. c + count j) a js = a + sum_list (map count js)"
  by (induction js arbitrary: a) simp_all

lemma count_loop_total:
  "foldl (\<lambda>c j. c + count j) 0
     (map (\<lambda>xs. \<lparr>mu = arithmetic_mean xs, count = int (length xs)\<rparr>) xss)
   = int (length (concat xss))"
proof -
  have "sum_list (map (\<lambda>xs. int (length xs)) xss) = int (length (concat xss))"
    by (induction xss) simp_all
  then show ?thesis by (simp add: count_loop_sum comp_def)
qed

lemma arithmetic_mean_scaled_sum:
  assumes "xs \<noteq> []" and "\<forall>x \<in> set xs. sample r c x"
  shows "arithmetic_mean xs = scaled_sum r c (real (length xs)) xs"
  using arithmetic_mean_eq [OF assms] by (simp add: scaled_sum_def)

lemma weighted_mean_scaled_sum:
  assumes ne: "xs \<noteq> []" and xs: "\<forall>x \<in> set xs. sample r c x"
  shows "mat_scale (real (length xs) / k) (arithmetic_mean xs) = scaled_sum r c k xs"
proof -
  have "real (length xs) \<noteq> 0" using ne by simp
  then have "real (length xs) / k * (s / real (length xs)) = s / k" for s
    by simp
  then show ?thesis
    by (simp add: arithmetic_mean_eq [OF ne xs] mat_scale_def scaled_sum_def)
qed

lemma mat_add_scaled_sum:
  "mat_add (scaled_sum r c k ys) (scaled_sum r c k xs) = Inr (scaled_sum r c k (ys @ xs))"
proof -
  have "map2 (+) (map (\<lambda>i. (\<Sum>x\<leftarrow>ys. m3_data x ! i) / k) [0..<3 * r * c])
                 (map (\<lambda>i. (\<Sum>x\<leftarrow>xs. m3_data x ! i) / k) [0..<3 * r * c])
      = map (\<lambda>i. (\<Sum>x\<leftarrow>ys @ xs. m3_data x ! i) / k) [0..<3 * r * c]"
    by (intro nth_equalityI) (simp_all add: add_divide_distrib)
  then show ?thesis by (simp add: mat_add_def same_dims_def scaled_sum_def)
qed

lemma mean_loop_scaled_sum:
  assumes pos: "0 < r" "0 < c"
  shows "\<forall>xs \<in> set xss. xs \<noteq> [] \<and> (\<forall>x \<in> set xs. sample r c x) \<Longrightarrow>
     mean_loop k (scaled_sum r c (real_of_int k) ys)
       (map (\<lambda>xs. \<lparr>mu = arithmetic_mean xs, count = int (length xs)\<rparr>) xss)
     = Inr (scaled_sum r c (real_of_int k) (ys @ concat xss))"
proof (induction xss arbitrary: ys)
  case Nil
  then show ?case by simp
next
  case (Cons xs xss)
  then have ne: "xs \<noteq> []" and xs: "\<forall>x \<in> set xs. sample r c x" by simp_all
  have nonempty: "\<not> empty3 (scaled_sum r c (real_of_int k) ys)"
    using pos by (simp add: empty3_def scaled_sum_def)
  have "mean_loop k (scaled_sum r c (real_of_int k) (ys @ xs))
       (map (\<lambda>xs. \<lparr>mu = arithmetic_mean xs, count = int (length xs)\<rparr>) xss)
     = Inr (scaled_sum r c (real_of_int k) ((ys @ xs) @ concat xss))"
    using Cons.prems by (intro Cons.IH) simp
  then show ?case
    using nonempty
    by (simp add: weighted_mean_scaled_sum [OF ne xs] mat_add_scaled_sum)
qed

lemma computeMeanFace_mean:
  assumes pos: "0 < r" "0 < c" and ne: "xss \<noteq> []"
    and xss: "\<forall>xs \<in> set xss. xs \<noteq> [] \<and> (\<forall>x \<in> set xs. sample r c x)"
  shows "computeMeanFace (map (\<lambda>xs. \<lparr>mu = arithmetic_mean xs, count = int (length xs)\<rparr>) xss)
       = Inr (arithmetic_mean (concat xss))"
proof -
  let ?k = "int (length (concat xss))"
  from ne obtain xs rest where eq: "xss = xs # rest" by (cases xss) auto
  with xss have xs_ne: "xs \<noteq> []" and xs: "\<forall>x \<in> set xs. sample r c x"
    and rest: "\<forall>xs \<in> set rest. xs \<noteq> [] \<and> (\<forall>x \<in> set xs. sample r c x)" by simp_all
  have all_ne: "concat xss \<noteq> []" using eq xs_ne by simp
  have all: "\<forall>x \<in> set (concat xss). sample r c x" using xss by auto
  have "mean_loop ?k (scaled_sum r c (real_of_int ?k) xs)
       (map (\<lambda>xs. \<lparr>mu = arithmetic_mean xs, count = int (length xs)\<rparr>) rest)
     = Inr (scaled_sum r c (real_of_int ?k) (xs @ concat rest))"
    using rest by (rule mean_loop_scaled_sum [OF pos])
  then have "mean_loop ?k Mat3f_new
       (map (\<lambda>xs. \<lparr>mu = arithmetic_mean xs, count = int (length xs)\<rparr>) xss)
     = Inr (scaled_sum r c (real_of_int ?k) (concat xss))"
    using eq by (simp add: weighted_mean_scaled_sum [OF xs_ne xs] Mat3f_new_def empty3_def)
  then show ?thesis
    unfolding computeMeanFace_def count_loop_total
    using arithmetic_mean_scaled_sum [OF all_ne all] by simp
qed

text \<open>
  Samples without entries (\<open>r * c = 0\<close>): \<^verbatim>\<open>mu\<close> stays empty, every update takes the
  first branch, and all means are the one empty image of that size.
\<close>

lemma sample_no_entries:
  assumes "sample r c x" and "r * c = 0"
  shows "x = \<lparr>m3_rows = r, m3_cols = c, m3_data = []\<rparr>"
  using assms by (cases x) (auto simp: sample_def)

lemma arithmetic_mean_no_entries:
  assumes "xs \<noteq> []" and "\<forall>x \<in> set xs. sample r c x" and "r * c = 0"
  shows "arithmetic_mean xs = \<lparr>m3_rows = r, m3_cols = c, m3_data = []\<rparr>"
proof -
  from assms have "hd xs = \<lparr>m3_rows = r, m3_cols = c, m3_data = []\<rparr>"
    by (intro sample_no_entries) simp_all
  then show ?thesis by (simp add: arithmetic_mean_def)
qed

lemma updateMean_all_no_entries:
  assumes z: "r * c = 0"
  shows "xs \<noteq> [] \<Longrightarrow> \<forall>x \<in> set xs. sample r c x \<Longrightarrow> empty3 (mu j) \<Longrightarrow>
     updateMean_all j xs
       = Inr \<lparr>mu = \<lparr>m3_rows = r, m3_cols = c, m3_data = []\<rparr>, count = count j + int (length xs)\<rparr>"
proof (induction xs arbitrary: j)
  case Nil
  then show ?case by simp
next
  case (Cons f fs)
  then have f: "f = \<lparr>m3_rows = r, m3_cols = c, m3_data = []\<rparr>"
    using z by (intro sample_no_entries) simp_all
  have st: "updateMean j f = Inr \<lparr>mu = f, count = count j + 1\<rparr>"
    using Cons.prems(3) by (simp add: updateMean_def cumulativeMovingAverage_def)
  show ?case
  proof (cases "fs = []")
    case True
    with st f show ?thesis by simp
  next
    case False
    have "empty3 (mu \<lparr>mu = f, count = count j + 1\<rparr>)"
      using z f by (simp add: empty3_def)
    with False Cons.prems(2)
    have "updateMean_all \<lparr>mu = f, count = count j + 1\<rparr> fs
        = Inr \<lparr>mu = \<lparr>m3_rows = r, m3_cols = c, m3_data = []\<rparr>,
               count = count \<lparr>mu = f, count = count j + 1\<rparr> + int (length fs)\<rparr>"
      by (intro Cons.IH) simp_all
    with st show ?thesis by simp
  qed
qed

lemma mean_loop_no_entries:
  assumes z: "r * c = 0"
  shows "xss \<noteq> [] \<Longrightarrow> \<forall>xs \<in> set xss. xs \<noteq> [] \<and> (\<forall>x \<in> set xs. sample r c x) \<Longrightarrow>
     empty3 acc \<Longrightarrow>
     mean_loop k acc (map (\<lambda>xs. \<lparr>mu = arithmetic_mean xs, count = int (length xs)\<rparr>) xss)
       = Inr \<lparr>m3_rows = r, m3_cols = c, m3_data = []\<rparr>"
proof (induction xss arbitrary: acc)
  case Nil
  then show ?case by simp
next
  case (Cons xs xss)
  then have m: "arithmetic_mean xs = \<lparr>m3_rows = r, m3_cols = c, m3_data = []\<rparr>"
    using z by (intro arithmetic_mean_no_entries) simp_all
  let ?w = "mat_scale (real (length xs) / real_of_int k) (arithmetic_mean xs)"
  have w: "?w = \<lparr>m3_rows = r, m3_cols = c, m3_data = []\<rparr>"
    by (simp add: m mat_scale_def)
  show ?case
  proof (cases "xss = []")
    case True
    with Cons.prems(3) w show ?thesis by simp
  next
    case False
    have "empty3 ?w" using z by (simp add: w empty3_def)
    with False Cons.prems(2)
    have "mean_loop k ?w (map (\<lambda>xs. \<lparr>mu = arithmetic_mean xs, count = int (length xs)\<rparr>) xss)
        = Inr \<lparr>m3_rows = r, m3_cols = c, m3_data = []\<rparr>"
      by (intro Cons.IH) simp_all
    with Cons.prems(3) show ?thesis by simp
  qed
qed

text \<open>
  The running mean: after every non-empty prefix of the samples a jitterer receives,
  \<^verbatim>\<open>mu\<close> is the arithmetic mean of that prefix and \<^verbatim>\<open>count\<close> its length.
\<close>

lemma updateMean_all_prefix_mean:
  assumes xs: "\<forall>x \<in> set xs. sample r c x" and n: "n \<in> {1..length xs}"
  shows "updateMean_all FaceJittererMean_new (take n xs)
           = Inr \<lparr>mu = arithmetic_mean (take n xs), count = int n\<rparr>"
proof -
  have ne': "take n xs \<noteq> []" using n by auto
  have ok: "\<forall>x \<in> set (take n xs). sample r c x"
    using xs by (meson in_set_takeD)
  have len: "int (length (take n xs)) = int n" using n by simp
  show ?thesis
  proof (cases "r * c = 0")
    case True
    have "empty3 (mu FaceJittererMean_new)"
      by (simp add: FaceJittererMean_new_def Mat3f_new_def empty3_def)
    from updateMean_all_no_entries [OF True ne' ok this] len
    show ?thesis
      by (simp add: arithmetic_mean_no_entries [OF ne' ok True] FaceJittererMean_new_def)
  next
    case False
    then have "0 < r" "0 < c" by simp_all
    from updateMean_all_mean [OF this ne' ok] len show ?thesis by simp
  qed
qed

text \<open>
  The combination, when every jitterer of the map has received a sample: the weighted sum
  is the arithmetic mean of all samples of all threads.
\<close>

lemma computeMeanFace_all_active:
  assumes ne: "xss \<noteq> []"
    and xss: "\<forall>xs \<in> set xss. xs \<noteq> [] \<and> (\<forall>x \<in> set xs. sample r c x)"
  shows "computeMeanFace (map (\<lambda>xs. \<lparr>mu = arithmetic_mean xs, count = int (length xs)\<rparr>) xss)
           = Inr (arithmetic_mean (concat xss))"
proof -
  have all_ne: "concat xss \<noteq> []"
    using ne xss by (cases xss) auto
  have all: "\<forall>x \<in> set (concat xss). sample r c x" using xss by auto
  show ?thesis
  proof (cases "r * c = 0")
    case True
    have "empty3 Mat3f_new" by (simp add: Mat3f_new_def empty3_def)
    from mean_loop_no_entries [OF True ne xss this] show ?thesis
      by (simp add: computeMeanFace_def arithmetic_mean_no_entries [OF all_ne all True])
  next
    case False
    then have "0 < r" "0 < c" by simp_all
    then show ?thesis using ne xss by (rule computeMeanFace_mean)
  qed
qed

text \<open>
  A jitterer that has received no sample is still in its initial state: \<^verbatim>\<open>main\<close> fetches
  the jitterer of the running thread (\<^verbatim>\<open>manager[tid]\<close>) before it tests \<^verbatim>\<open>repeat[i] > 0\<close>
  and whether the image could be read, so a thread whose images are all skipped leaves
  one behind. At the head of the map such a jitterer changes nothing. Behind a jitterer
  whose mean holds entries, the second loop adds the empty \<^verbatim>\<open>0 * mu\<close> to the
  accumulated mean, which OpenCV refuses.
\<close>

lemma computeMeanFace_idle_first:
  "computeMeanFace (FaceJittererMean_new # js) = computeMeanFace js"
  by (simp add: computeMeanFace_def FaceJittererMean_new_def Mat3f_new_def empty3_def
      mat_scale_def)

lemma mean_loop_idle_after_active:
  assumes "\<not> empty3 acc"
  shows "mean_loop k acc (FaceJittererMean_new # js) = Inl SizeMismatch"
proof -
  have "\<not> same_dims acc Mat3f_new"
    using assms by (auto simp: empty3_def same_dims_def Mat3f_new_def)
  then show ?thesis
    using assms
    by (simp add: FaceJittererMean_new_def mat_scale_def mat_add_def Mat3f_new_def)
qed

lemma computeMeanFace_idle_after_active:
  assumes "\<not> empty3 (mu j)"
  shows "computeMeanFace (j # FaceJittererMean_new # js) = Inl SizeMismatch"
proof -
  let ?k = "foldl (\<lambda>c j. c + count j) 0 (j # FaceJittererMean_new # js)"
  have "\<not> empty3 (mat_scale (real_of_int (count j) / real_of_int ?k) (mu j))"
    using assms by (simp add: empty3_def mat_scale_def)
  then have "mean_loop ?k (mat_scale (real_of_int (count j) / real_of_int ?k) (mu j))
               (FaceJittererMean_new # js) = Inl SizeMismatch"
    by (rule mean_loop_idle_after_active)
  then show ?thesis
    unfolding computeMeanFace_def
    by (simp add: Mat3f_new_def empty3_def del: foldl_Cons)
qed

text \<open>
  Claim C9. The first part holds: the running mean of a jitterer is the arithmetic mean
  of the samples it has seen (shown above for every non-empty prefix). The second part
  says that \<^verbatim>\<open>computeMeanFace\<close> returns the arithmetic mean of all samples of all threads.
  It does when every jitterer has received a sample, and it does not in general: with one
  thread that has produced the \<open>2 \<times> 2\<close> face \<open>A\<close> and one thread that has produced none, the
  mean of all samples is \<open>A\<close>; \<^verbatim>\<open>computeMeanFace\<close> returns \<open>A\<close> when the idle jitterer
  comes first in the map and fails in \<^verbatim>\<open>mu += ...\<close> when it comes second.
\<close>

theorem computeMeanFace_idle_jitterer:
  "updateMean_all FaceJittererMean_new
     [\<lparr>m3_rows = 2, m3_cols = 2, m3_data = [1, 2, 3, 4, 5, 6, 7, 8, 9, 10, 11, 12]\<rparr>]
     = Inr \<lparr>mu = \<lparr>m3_rows = 2, m3_cols = 2,
                   m3_data = [1, 2, 3, 4, 5, 6, 7, 8, 9, 10, 11, 12]\<rparr>, count = 1\<rparr>
   \<and> updateMean_all FaceJittererMean_new [] = Inr FaceJittererMean_new
   \<and> arithmetic_mean
        ([\<lparr>m3_rows = 2, m3_cols = 2, m3_data = [1, 2, 3, 4, 5, 6, 7, 8, 9, 10, 11, 12]\<rparr>] @ [])
     = \<lparr>m3_rows = 2, m3_cols = 2, m3_data = [1, 2, 3, 4, 5, 6, 7, 8, 9, 10, 11, 12]\<rparr>
   \<and> computeMeanFace
        [FaceJittererMean_new,
         \<lparr>mu = \<lparr>m3_rows = 2, m3_cols = 2,
                 m3_data = [1, 2, 3, 4, 5, 6, 7, 8, 9, 10, 11, 12]\<rparr>, count = 1\<rparr>]
     = Inr \<lparr>m3_rows = 2, m3_cols = 2, m3_data = [1, 2, 3, 4, 5, 6, 7, 8, 9, 10, 11, 12]\<rparr>
   \<and> computeMeanFace
        [\<lparr>mu = \<lparr>m3_rows = 2, m3_cols = 2,
                 m3_data = [1, 2, 3, 4, 5, 6, 7, 8, 9, 10, 11, 12]\<rparr>, count = 1\<rparr>,
         FaceJittererMean_new]
     = Inl SizeMismatch"
proof -
  let ?A = "\<lparr>m3_rows = 2, m3_cols = 2, m3_data = [1, 2, 3, 4, 5, 6, 7, 8, 9, 10, 11, 12]\<rparr>"
  have a: "updateMean_all FaceJittererMean_new [?A] = Inr \<lparr>mu = ?A, count = 1\<rparr>"
    by (simp add: updateMean_first)
  have b: "updateMean_all FaceJittererMean_new [] = Inr FaceJittererMean_new"
    by simp
  have "sample 2 2 ?A" by (simp add: sample_def)
  then have m: "arithmetic_mean ([?A] @ []) = ?A"
    by (simp add: arithmetic_mean_single)
  have "computeMeanFace [\<lparr>mu = ?A, count = 1\<rparr>] = Inr ?A"
    by (simp add: computeMeanFace_def Mat3f_new_def empty3_def mat_scale_def)
  then have c: "computeMeanFace [FaceJittererMean_new, \<lparr>mu = ?A, count = 1\<rparr>] = Inr ?A"
    by (simp only: computeMeanFace_idle_first)
  have "\<not> empty3 (mu \<lparr>mu = ?A, count = 1\<rparr>)" by (simp add: empty3_def)
  then have d: "computeMeanFace [\<lparr>mu = ?A, count = 1\<rparr>, FaceJittererMean_new]
                  = Inl SizeMismatch"
    by (rule computeMeanFace_idle_after_active)
  from a b m c d show ?thesis by blast
qed

end
